theory Spec2Isabelle
  imports Complex_Main
begin

section \<open>Results and errors\<close>

text \<open>
  Every exception the module can meet is a value. \<open>KeyError k\<close> is Python's failed
  dictionary lookup of the key \<open>k\<close>, \<open>IndexError\<close> its failed list index,
  \<open>FrameworkError\<close> a rejection by the host tensor library (operand shapes that do not
  fit, an invalid dropout probability). \<open>NotModelled\<close> marks operand ranks on which the
  tensor library is defined but which this development does not describe; no theorem
  below speaks about such a result.
\<close>

datatype error = KeyError string | IndexError | FrameworkError | NotModelled

definition bind_res :: "error + 'a \<Rightarrow> ('a \<Rightarrow> error + 'b) \<Rightarrow> error + 'b" where
  "bind_res m f = (case m of Inl e \<Rightarrow> Inl e | Inr x \<Rightarrow> f x)"

definition getitem :: "(string \<rightharpoonup> 'v) \<Rightarrow> string \<Rightarrow> error + 'v" where
  "getitem d k = (case d k of None \<Rightarrow> Inl (KeyError k) | Some v \<Rightarrow> Inr v)"

section \<open>Tensors of the host framework\<close>

text \<open>
  A tensor carries a dtype, a shape and its values. The values are kept as the list of
  the vectors along the last axis, in row-major order: a tensor of shape
  \<open>[d\<^sub>1, \<dots>, d\<^sub>k, n]\<close> has \<open>d\<^sub>1 * \<dots> * d\<^sub>k\<close> rows of length \<open>n\<close>, and a
  one-dimensional tensor has one row. Scalars are elements of an ordered commutative
  ring: arithmetic is exact, so a dtype conversion changes the dtype of a tensor and
  none of its values. Rounding is outside this model.
\<close>

datatype dtype = float16 | bfloat16 | float32 | float64

record 'a tensor =
  dtype :: dtype
  shape :: "nat list"
  rows :: "'a list list"

definition tensor_ok :: "'a tensor \<Rightarrow> bool" where
  "tensor_ok t \<longleftrightarrow>
     shape t \<noteq> [] \<and> length (rows t) = prod_list (butlast (shape t)) \<and>
     list_all (\<lambda>r. length r = last (shape t)) (rows t)"

definition astype :: "dtype \<Rightarrow> 'a tensor \<Rightarrow> 'a tensor" where
  "astype d x = x\<lparr>dtype := d\<rparr>"

text \<open>The dtype of the result of a binary operation: the wider operand wins, and the two
  16-bit formats meet in \<open>float32\<close>.\<close>

definition promote_types :: "dtype \<Rightarrow> dtype \<Rightarrow> dtype" where
  "promote_types a b =
     (if a = b then a else if a = float64 \<or> b = float64 then float64 else float32)"

text \<open>Broadcasting compares the shapes from the last axis backwards: two extents fit when
  they are equal or one of them is 1.\<close>

fun broadcastable_rev :: "nat list \<Rightarrow> nat list \<Rightarrow> bool" where
  "broadcastable_rev (a # as) (b # bs) = ((a = b \<or> a = 1 \<or> b = 1) \<and> broadcastable_rev as bs)"
| "broadcastable_rev _ _ = True"

definition broadcastable :: "nat list \<Rightarrow> nat list \<Rightarrow> bool" where
  "broadcastable s t = broadcastable_rev (rev s) (rev t)"

text \<open>An elementwise binary operation, on operands of one shape or with a one-dimensional
  right operand spread over the rows of the left one.\<close>

definition elementwise :: "('a \<Rightarrow> 'a \<Rightarrow> 'a) \<Rightarrow> 'a tensor \<Rightarrow> 'a tensor \<Rightarrow> error + 'a tensor" where
  "elementwise f x y =
     (if shape x = shape y then
        Inr \<lparr>dtype = promote_types (dtype x) (dtype y), shape = shape x,
             rows = map2 (map2 f) (rows x) (rows y)\<rparr>
      else if shape x \<noteq> [] \<and> shape y = [last (shape x)] then
        Inr \<lparr>dtype = promote_types (dtype x) (dtype y), shape = shape x,
             rows = map (\<lambda>r. map2 f r (concat (rows y))) (rows x)\<rparr>
      else if broadcastable (shape x) (shape y) then Inl NotModelled
      else Inl FrameworkError)"

definition add :: "'a::plus tensor \<Rightarrow> 'a tensor \<Rightarrow> error + 'a tensor" where
  "add = elementwise (+)"

definition sub :: "'a::minus tensor \<Rightarrow> 'a tensor \<Rightarrow> error + 'a tensor" where
  "sub = elementwise (-)"

text \<open>Multiplication of a tensor by a Python number, and the scalar a Python integer
  becomes: it is counted up from zero in steps of one.\<close>

definition scalar_of_int :: "int \<Rightarrow> 'a::{plus,uminus,zero,one}" where
  "scalar_of_int i =
     (if 0 \<le> i then ((+) 1 ^^ nat i) 0 else - (((+) 1 ^^ nat (- i)) 0))"

definition mul_scalar :: "'a::times tensor \<Rightarrow> 'a \<Rightarrow> 'a tensor" where
  "mul_scalar x c = x\<lparr>rows := map (map (\<lambda>v. v * c)) (rows x)\<rparr>"

definition cols :: "nat \<Rightarrow> 'a list list \<Rightarrow> 'a list list" where
  "cols m rs = map (\<lambda>j. map (\<lambda>r. r ! j) rs) [0..<m]"

text \<open>The dot product of two vectors: the products of the entries, added up from the last
  one. Only the operations of the scalars are used, whatever laws they obey.\<close>

definition dot :: "'a::{plus,times,zero} list \<Rightarrow> 'a list \<Rightarrow> 'a" where
  "dot u v = foldr (+) (map2 (*) u v) 0"

text \<open>\<open>paddle.matmul\<close> with a two-dimensional right operand: every last-axis vector of the
  left operand is multiplied by the matrix.\<close>

definition matmul :: "'a::{plus,times,zero} tensor \<Rightarrow> 'a tensor \<Rightarrow> error + 'a tensor" where
  "matmul x y =
     (if shape x = [] \<or> length (shape y) \<noteq> 2 then Inl NotModelled
      else if last (shape x) \<noteq> hd (shape y) then Inl FrameworkError
      else Inr \<lparr>dtype = promote_types (dtype x) (dtype y),
                shape = butlast (shape x) @ [last (shape y)],
                rows = map (\<lambda>r. map (dot r) (cols (last (shape y)) (rows y))) (rows x)\<rparr>)"

text \<open>\<open>Tensor.T\<close> of a matrix; a one-dimensional tensor is its own transpose.\<close>

definition T :: "'a tensor \<Rightarrow> error + 'a tensor" where
  "T x = (case shape x of
            [n, m] \<Rightarrow> Inr (x\<lparr>shape := [m, n], rows := cols m (rows x)\<rparr>)
          | [n] \<Rightarrow> Inr x
          | _ \<Rightarrow> Inl NotModelled)"

text \<open>\<open>paddle.diag\<close>: the diagonal matrix of a vector, the main diagonal of a matrix.\<close>

definition diag :: "'a::zero tensor \<Rightarrow> error + 'a tensor" where
  "diag v = (case shape v of
               [k] \<Rightarrow> Inr \<lparr>dtype = dtype v, shape = [k, k],
                          rows = map (\<lambda>i. map (\<lambda>j. if i = j then concat (rows v) ! i else 0) [0..<k]) [0..<k]\<rparr>
             | [n, m] \<Rightarrow> Inr \<lparr>dtype = dtype v, shape = [min n m],
                             rows = [map (\<lambda>i. rows v ! i ! i) [0..<min n m]]\<rparr>
             | _ \<Rightarrow> Inl FrameworkError)"

text \<open>\<open>create_parameter\<close>: a tensor of the given shape and dtype whose entry in row \<open>i\<close>,
  position \<open>j\<close> is drawn by the initializer.\<close>

definition create_parameter :: "nat list \<Rightarrow> dtype \<Rightarrow> (nat \<Rightarrow> nat \<Rightarrow> 'a) \<Rightarrow> 'a tensor" where
  "create_parameter shp d ini =
     \<lparr>dtype = d, shape = shp,
      rows = map (\<lambda>i. map (ini i) [0..<last shp]) [0..<prod_list (butlast shp)]\<rparr>"

definition Constant :: "'a \<Rightarrow> nat \<Rightarrow> nat \<Rightarrow> 'a" where
  "Constant v i j = v"

text \<open>
  What the framework draws at random is a parameter of the model: the matrices of the
  \<open>Orthogonal\<close> initializer (numbered in the order of the draws), the matrix of the
  \<open>KaimingUniform\<close> initializer, and the effect of a dropout layer whose probability is
  not zero. \<open>default_dtype\<close> is the dtype a parameter is created with.
\<close>

record 'a paddle =
  default_dtype :: dtype
  Orthogonal :: "nat \<Rightarrow> nat \<Rightarrow> nat \<Rightarrow> 'a"
  KaimingUniform :: "nat \<Rightarrow> nat \<Rightarrow> 'a"
  random_dropout :: "rat \<Rightarrow> 'a tensor \<Rightarrow> error + 'a tensor"

text \<open>\<open>nn.Dropout(p)\<close>: with probability zero the layer returns its input.\<close>

definition Dropout :: "'a paddle \<Rightarrow> rat \<Rightarrow> 'a tensor \<Rightarrow> error + 'a tensor" where
  "Dropout P p x = (if p = 0 then Inr x else random_dropout P p x)"

text \<open>\<open>nn.Linear\<close>: the weight has shape \<open>[in_features, out_features]\<close>, the bias is
  created with zeros, and the layer computes \<open>x @ weight + bias\<close>.\<close>

record 'a Linear =
  linear_weight :: "'a tensor"
  linear_bias :: "'a tensor"

definition Linear_init :: "'a::zero paddle \<Rightarrow> nat \<Rightarrow> nat \<Rightarrow> nat \<Rightarrow> 'a Linear" where
  "Linear_init P k n m =
     \<lparr>linear_weight = create_parameter [n, m] (default_dtype P) (Orthogonal P k),
      linear_bias = create_parameter [m] (default_dtype P) (Constant 0)\<rparr>"

definition Linear_astype :: "dtype \<Rightarrow> 'a Linear \<Rightarrow> 'a Linear" where
  "Linear_astype d l =
     \<lparr>linear_weight = astype d (linear_weight l), linear_bias = astype d (linear_bias l)\<rparr>"

definition Linear_forward :: "'a::{plus,times,zero} Linear \<Rightarrow> 'a tensor \<Rightarrow> error + 'a tensor" where
  "Linear_forward l x = bind_res (matmul x (linear_weight l)) (\<lambda>y. add y (linear_bias l))"

section \<open>The module \<open>interventions.py\<close>\<close>

definition linear_act :: "'a tensor \<Rightarrow> 'a tensor" where
  "linear_act x = x"

definition ReLU :: "'a::{zero,ord} tensor \<Rightarrow> 'a tensor" where
  "ReLU x = x\<lparr>rows := map (map (max 0)) (rows x)\<rparr>"

definition ACT2FN :: "string \<rightharpoonup> ('a::{zero,ord} tensor \<Rightarrow> 'a tensor)" where
  "ACT2FN = [''linear'' \<mapsto> linear_act, ''relu'' \<mapsto> ReLU]"

subsection \<open>\<open>LowRankRotateLayer\<close>\<close>

record 'a LowRankRotateLayer =
  weight :: "'a tensor"

definition LowRankRotateLayer_init :: "'a paddle \<Rightarrow> nat \<Rightarrow> nat \<Rightarrow> nat \<Rightarrow> 'a LowRankRotateLayer" where
  "LowRankRotateLayer_init P k n m =
     \<lparr>weight = create_parameter [n, m] (default_dtype P) (Orthogonal P k)\<rparr>"

definition LowRankRotateLayer_forward ::
  "'a::{plus,times,zero} LowRankRotateLayer \<Rightarrow> 'a tensor \<Rightarrow> error + 'a tensor" where
  "LowRankRotateLayer_forward self x = matmul (astype (dtype (weight self)) x) (weight self)"

subsection \<open>Keyword arguments of the constructors\<close>

text \<open>
  The constructors take \<open>**kwargs\<close>. Each key they read is a field that is \<open>None\<close> when
  the key is absent; the values have the types the constructors pass on to the
  framework. The key \<open>act_fn\<close> may be absent, hold Python's \<open>None\<close> or hold a name.
\<close>

record kwargs =
  kw_embed_dim :: "nat option"
  kw_low_rank_dimension :: "nat option"
  kw_dtype :: "dtype option"
  kw_dropout :: "rat option"
  kw_act_fn :: "string option option"

definition kwarg :: "string \<Rightarrow> 'v option \<Rightarrow> error + 'v" where
  "kwarg k v = (case v of None \<Rightarrow> Inl (KeyError k) | Some x \<Rightarrow> Inr x)"

subsection \<open>\<open>LoreftIntervention\<close>\<close>

record 'a LoreftIntervention =
  rotate_layer :: "'a LowRankRotateLayer"
  learned_source :: "'a Linear"
  data_type :: dtype
  dropout :: "'a tensor \<Rightarrow> error + 'a tensor"
  act_fn :: "'a tensor \<Rightarrow> 'a tensor"

definition LoreftIntervention_init ::
  "'a::{zero,ord} paddle \<Rightarrow> kwargs \<Rightarrow> error + 'a LoreftIntervention" where
  "LoreftIntervention_init P kw =
     bind_res (kwarg ''embed_dim'' (kw_embed_dim kw)) (\<lambda>n.
     bind_res (kwarg ''low_rank_dimension'' (kw_low_rank_dimension kw)) (\<lambda>m.
     let rotate = LowRankRotateLayer_init P 0 n m in
     bind_res (kwarg ''embed_dim'' (kw_embed_dim kw)) (\<lambda>n'.
     bind_res (kwarg ''low_rank_dimension'' (kw_low_rank_dimension kw)) (\<lambda>m'.
     let source = Linear_init P 1 n' m' in
     bind_res (kwarg ''dtype'' (kw_dtype kw)) (\<lambda>d.
     let source = Linear_astype d source;
         drop = Dropout P (case kw_dropout kw of Some p \<Rightarrow> p | None \<Rightarrow> 0) in
     bind_res (case kw_act_fn kw of
                 None \<Rightarrow> getitem ACT2FN ''linear''
               | Some None \<Rightarrow> getitem ACT2FN ''linear''
               | Some (Some a) \<Rightarrow> getitem ACT2FN a) (\<lambda>act.
     Inr \<lparr>rotate_layer = rotate, learned_source = source, data_type = d,
          dropout = drop, act_fn = act\<rparr>))))))"

definition LoreftIntervention_forward ::
  "'a::{plus,minus,times,zero} LoreftIntervention \<Rightarrow> 'a tensor \<Rightarrow> error + 'a tensor" where
  "LoreftIntervention_forward self base =
     bind_res (LowRankRotateLayer_forward (rotate_layer self) base) (\<lambda>rotated_base.
     bind_res (Linear_forward (learned_source self) base) (\<lambda>source.
     bind_res (sub (act_fn self source) rotated_base) (\<lambda>delta.
     bind_res (T (weight (rotate_layer self))) (\<lambda>wT.
     bind_res (matmul delta wT) (\<lambda>edit.
     bind_res (add base edit) (\<lambda>output.
     dropout self (astype (dtype base) output)))))))"

text \<open>
  \<open>load_state_dict\<close> replaces the two tensors of the learned source and then assigns
  to the slice \<open>[:, :overload_w_width]\<close> of the rotate layer's weight. The model returns
  the updated module; when a step raises, the error is returned.
\<close>

definition last_dim :: "'a tensor \<Rightarrow> error + nat" where
  "last_dim x = (if shape x = [] then Inl IndexError else Inr (last (shape x)))"

text \<open>The assignment \<open>w[:, :k] = v\<close> to a matrix \<open>w\<close> of shape \<open>[n, m]\<close>: the slice has
  shape \<open>[n, min k m]\<close>, and a value of that shape replaces it.\<close>

definition setitem_cols :: "'a tensor \<Rightarrow> nat \<Rightarrow> 'a tensor \<Rightarrow> error + 'a tensor" where
  "setitem_cols w k v =
     (case shape w of
        [n, m] \<Rightarrow>
          if shape v = [n, min k m] then
            Inr (w\<lparr>rows := map2 (\<lambda>rw rv. rv @ drop k rw) (rows w) (rows v)\<rparr>)
          else if broadcastable (shape v) [n, min k m] then Inl NotModelled
          else Inl FrameworkError
      | _ \<Rightarrow> Inl NotModelled)"

definition LoreftIntervention_load_state_dict ::
  "'a LoreftIntervention \<Rightarrow> (string \<rightharpoonup> 'a tensor) \<Rightarrow> error + 'a LoreftIntervention" where
  "LoreftIntervention_load_state_dict self state_dict =
     bind_res (getitem state_dict ''learned_source.weight'') (\<lambda>sw.
     let self = self\<lparr>learned_source :=
                  (learned_source self)\<lparr>linear_weight := astype (data_type self) sw\<rparr>\<rparr> in
     bind_res (getitem state_dict ''learned_source.bias'') (\<lambda>sb.
     let self = self\<lparr>learned_source :=
                  (learned_source self)\<lparr>linear_bias := astype (data_type self) sb\<rparr>\<rparr> in
     bind_res (getitem state_dict ''rotate_layer.weight'') (\<lambda>rw.
     let overload_w = astype (data_type self) rw in
     bind_res (last_dim overload_w) (\<lambda>overload_w_width.
     bind_res (setitem_cols (weight (rotate_layer self)) overload_w_width overload_w) (\<lambda>w'.
     Inr (self\<lparr>rotate_layer := (rotate_layer self)\<lparr>weight := w'\<rparr>\<rparr>))))))"

subsection \<open>\<open>TinyIntervention\<close>\<close>

record 'a TinyIntervention =
  rank :: nat
  hidden_size :: nat
  tiny_dropout :: "'a tensor \<Rightarrow> error + 'a tensor"
  scaling :: int
  param_A :: "'a tensor"
  param_B :: "'a tensor"
  param_a :: "'a tensor"
  param_b :: "'a tensor"

definition TinyIntervention_init ::
  "'a::{zero,one} paddle \<Rightarrow> kwargs \<Rightarrow> error + 'a TinyIntervention" where
  "TinyIntervention_init P kw =
     bind_res (kwarg ''low_rank_dimension'' (kw_low_rank_dimension kw)) (\<lambda>r.
     bind_res (kwarg ''embed_dim'' (kw_embed_dim kw)) (\<lambda>h.
     let p = (0::rat);
         drop = (if p > 0 then Dropout P p else (\<lambda>x. Inr x)) in
     Inr \<lparr>rank = r, hidden_size = h, tiny_dropout = drop, scaling = 1,
          param_A = create_parameter [h, r] (default_dtype P) (KaimingUniform P),
          param_B = create_parameter [r, h] (default_dtype P) (Constant 0),
          param_a = create_parameter [r] (default_dtype P) (Constant 1),
          param_b = create_parameter [h] (default_dtype P) (Constant 1)\<rparr>))"

definition TinyIntervention_forward ::
  "'a::{plus,uminus,times,zero,one} TinyIntervention \<Rightarrow> 'a tensor \<Rightarrow> error + 'a tensor" where
  "TinyIntervention_forward self base =
     bind_res (diag (param_b self)) (\<lambda>diag_b.
     bind_res (diag (param_a self)) (\<lambda>diag_a.
     bind_res (tiny_dropout self base) (\<lambda>x.
     bind_res (matmul x (param_A self)) (\<lambda>xA.
     bind_res (matmul xA diag_a) (\<lambda>xAa.
     bind_res (matmul xAa (param_B self)) (\<lambda>xAaB.
     bind_res (matmul xAaB diag_b) (\<lambda>xAaBb.
     let result = mul_scalar xAaBb (scalar_of_int (scaling self)) in
     bind_res (add base (astype (dtype base) result)) (\<lambda>output.
     tiny_dropout self output))))))))"

text \<open>\<open>Tensor.set_value\<close> accepts a value of the parameter's own shape and dtype.\<close>

definition set_value :: "'a tensor \<Rightarrow> 'a tensor \<Rightarrow> error + 'a tensor" where
  "set_value p v = (if shape p = shape v \<and> dtype p = dtype v then Inr v else Inl FrameworkError)"

definition TinyIntervention_load_state_dict ::
  "'a TinyIntervention \<Rightarrow> (string \<rightharpoonup> 'a tensor) \<Rightarrow> error + 'a TinyIntervention" where
  "TinyIntervention_load_state_dict self state_dict =
     bind_res (getitem state_dict ''param_A'') (\<lambda>vA.
     bind_res (set_value (param_A self) vA) (\<lambda>pA.
     bind_res (getitem state_dict ''param_B'') (\<lambda>vB.
     bind_res (set_value (param_B self) vB) (\<lambda>pB.
     bind_res (getitem state_dict ''param_a'') (\<lambda>va.
     bind_res (set_value (param_a self) va) (\<lambda>pa.
     bind_res (getitem state_dict ''param_b'') (\<lambda>vb.
     bind_res (set_value (param_b self) vb) (\<lambda>pb.
     Inr (self\<lparr>param_A := pA, param_B := pB, param_a := pa, param_b := pb\<rparr>)))))))))"

subsection \<open>The lookup table\<close>



subsection \<open>The two modules side by side\<close>



section \<open>Floating-point scalars\<close>

text \<open>
  The tensors of the framework hold floating-point numbers. \<open>f32\<close> is the binary32
  format, the framework's default dtype: a finite value is a rational number, and there
  are the two infinities and NaN (the sign of zero is not kept). Every operation on
  finite values computes the exact result and rounds it with \<open>round32\<close>: to the nearest
  number with a 24-bit significand, ties to the even significand, exponents from -126
  (below, the spacing stays \<open>2\<^sup>-\<^sup>1\<^sup>4\<^sup>9\<close>), and to an infinity from \<open>2\<^sup>1\<^sup>2\<^sup>8\<close> on, which is
  the literal in \<open>round32\<close>. The operations are not associative and do not distribute,
  so \<open>f32\<close> is an instance of the classes of the operations only.
\<close>

datatype f32 = Finite rat | PosInf | NegInf | NaN

function bit_length :: "int \<Rightarrow> int" where
  "bit_length n = (if n \<le> 0 then 0 else 1 + bit_length (n div 2))"
  by pat_completeness auto
termination
  by (relation "measure nat") auto

declare bit_length.simps [simp del]

definition ilog2 :: "rat \<Rightarrow> int" where
  "ilog2 q = (if 1 \<le> q then bit_length \<lfloor>q\<rfloor> - 1 else - bit_length (\<lceil>1 / q\<rceil> - 1))"

definition pow2 :: "int \<Rightarrow> rat" where
  "pow2 i = (if 0 \<le> i then 2 ^ nat i else 1 / 2 ^ nat (- i))"

definition round_half_even :: "rat \<Rightarrow> int" where
  "round_half_even x =
     (let f = \<lfloor>x\<rfloor>; d = x - of_int f
      in if d < 1 / 2 then f else if 1 / 2 < d then f + 1 else if even f then f else f + 1)"

definition round32 :: "rat \<Rightarrow> f32" where
  "round32 q =
     (if q = 0 then Finite 0
      else let a = \<bar>q\<bar>;
               u = pow2 (max (ilog2 a) (- 126) - 23);
               r = of_int (round_half_even (a / u)) * u
           in if 340282366920938463463374607431768211456 \<le> r
              then (if 0 < q then PosInf else NegInf)
              else Finite (if 0 < q then r else - r))"

instantiation f32 :: "{zero, one, plus, minus, uminus, times}"
begin

definition zero_f32 :: f32 where "zero_f32 = Finite 0"

definition one_f32 :: f32 where "one_f32 = Finite 1"

fun uminus_f32 :: "f32 \<Rightarrow> f32" where
  "uminus_f32 (Finite a) = Finite (- a)"
| "uminus_f32 PosInf = NegInf"
| "uminus_f32 NegInf = PosInf"
| "uminus_f32 NaN = NaN"

fun plus_f32 :: "f32 \<Rightarrow> f32 \<Rightarrow> f32" where
  "plus_f32 (Finite a) (Finite b) = round32 (a + b)"
| "plus_f32 NaN y = NaN"
| "plus_f32 x NaN = NaN"
| "plus_f32 PosInf NegInf = NaN"
| "plus_f32 NegInf PosInf = NaN"
| "plus_f32 PosInf y = PosInf"
| "plus_f32 NegInf y = NegInf"
| "plus_f32 x PosInf = PosInf"
| "plus_f32 x NegInf = NegInf"

definition minus_f32 :: "f32 \<Rightarrow> f32 \<Rightarrow> f32" where
  "minus_f32 x y = x + (- y)"

fun times_f32 :: "f32 \<Rightarrow> f32 \<Rightarrow> f32" where
  "times_f32 (Finite a) (Finite b) = round32 (a * b)"
| "times_f32 NaN y = NaN"
| "times_f32 x NaN = NaN"
| "times_f32 (Finite a) PosInf = (if a = 0 then NaN else if 0 < a then PosInf else NegInf)"
| "times_f32 (Finite a) NegInf = (if a = 0 then NaN else if 0 < a then NegInf else PosInf)"
| "times_f32 PosInf (Finite b) = (if b = 0 then NaN else if 0 < b then PosInf else NegInf)"
| "times_f32 NegInf (Finite b) = (if b = 0 then NaN else if 0 < b then NegInf else PosInf)"
| "times_f32 PosInf PosInf = PosInf"
| "times_f32 PosInf NegInf = NegInf"
| "times_f32 NegInf PosInf = NegInf"
| "times_f32 NegInf NegInf = PosInf"

instance ..

end

text \<open>A finite float: a finite value that rounding leaves as it is.\<close>

definition finite32 :: "f32 \<Rightarrow> bool" where
  "finite32 x = (case x of Finite q \<Rightarrow> True | _ \<Rightarrow> False)"


section \<open>Reference formulas and invariants\<close>

text \<open>An activation of the table acts on every entry of a tensor by one scalar function.\<close>

definition pointwise :: "('a \<Rightarrow> 'a) \<Rightarrow> 'a tensor \<Rightarrow> 'a tensor" where
  "pointwise \<phi> x = x\<lparr>rows := map (map \<phi>) (rows x)\<rparr>"

text \<open>
  The formula of the source's comment, \<open>LoReFT(h) = h + R\<^sup>T(Wh + b - Rh)\<close>, for one
  hidden vector \<open>h\<close> written as a row: entry \<open>j\<close> of the result is
  \<open>h\<^sub>j + \<Sum>\<^sub>k (\<phi>((h W)\<^sub>k + b\<^sub>k) - (h R)\<^sub>k) * R\<^sub>j\<^sub>k\<close>, with the activation \<open>\<phi>\<close>.
\<close>

definition LoReFT ::
  "('a::ring \<Rightarrow> 'a) \<Rightarrow> 'a list list \<Rightarrow> 'a list list \<Rightarrow> 'a list \<Rightarrow> 'a list \<Rightarrow> 'a list" where
  "LoReFT \<phi> R W b h =
     map (\<lambda>j. h ! j + (\<Sum>k<length b. (\<phi> ((\<Sum>l<length h. h ! l * W ! l ! k) + b ! k)
                                      - (\<Sum>l<length h. h ! l * R ! l ! k)) * R ! j ! k))
         [0..<length h]"

text \<open>
  The additive edit of \<open>TinyIntervention\<close> for one hidden vector:
  \<open>h + (h A diag(a) B diag(b)) * s\<close>, entry by entry.
\<close>

definition TinyReFT ::
  "'a::ring_1 list list \<Rightarrow> 'a list \<Rightarrow> 'a list list \<Rightarrow> 'a list \<Rightarrow> 'a \<Rightarrow> 'a list \<Rightarrow> 'a list" where
  "TinyReFT A a B b s h =
     map (\<lambda>j. h ! j + (\<Sum>k<length a. (\<Sum>l<length h. h ! l * A ! l ! k) * a ! k * B ! k ! j) * b ! j * s)
         [0..<length h]"

text \<open>A vector lies in the span of the vectors \<open>vs\<close> when it is a linear combination of
  them: entry \<open>j\<close> is the dot product of the coefficients with the entries \<open>j\<close> of the
  vectors. A matrix, given by its rows, has rank at most \<open>r\<close> when \<open>r\<close> vectors span all
  its rows.\<close>

definition in_span :: "'a::{plus,times,zero} list list \<Rightarrow> 'a list \<Rightarrow> bool" where
  "in_span vs u \<longleftrightarrow>
     (\<exists>c. length c = length vs \<and> (\<forall>j<length u. u ! j = dot c (map (\<lambda>v. v ! j) vs)))"

definition rank_at_most :: "nat \<Rightarrow> 'a::{plus,times,zero} list list \<Rightarrow> bool" where
  "rank_at_most r d \<longleftrightarrow> (\<exists>vs. length vs = r \<and> (\<forall>u \<in> set d. in_span vs u))"

text \<open>
  The shapes the constructors give the parameters. \<open>LoreftIntervention.__init__\<close>
  establishes the first invariant and \<open>TinyIntervention.__init__\<close> the second, which
  \<open>TinyIntervention.load_state_dict\<close> keeps.
\<close>

definition LoreftIntervention_ok :: "nat \<Rightarrow> nat \<Rightarrow> 'a LoreftIntervention \<Rightarrow> bool" where
  "LoreftIntervention_ok n m self \<longleftrightarrow>
     tensor_ok (weight (rotate_layer self)) \<and> shape (weight (rotate_layer self)) = [n, m] \<and>
     tensor_ok (linear_weight (learned_source self)) \<and>
     shape (linear_weight (learned_source self)) = [n, m] \<and>
     tensor_ok (linear_bias (learned_source self)) \<and>
     shape (linear_bias (learned_source self)) = [m]"

definition TinyIntervention_ok :: "'a TinyIntervention \<Rightarrow> bool" where
  "TinyIntervention_ok self \<longleftrightarrow>
     tensor_ok (param_A self) \<and> shape (param_A self) = [hidden_size self, rank self] \<and>
     tensor_ok (param_B self) \<and> shape (param_B self) = [rank self, hidden_size self] \<and>
     tensor_ok (param_a self) \<and> shape (param_a self) = [rank self] \<and>
     tensor_ok (param_b self) \<and> shape (param_b self) = [hidden_size self] \<and>
     tiny_dropout self = (\<lambda>x. Inr x)"

section \<open>Concrete modules\<close>

text \<open>
  A framework over the integers whose initializers draw fixed matrices, keyword
  arguments for an embedding of width 2 and rank 1, the two modules the constructors
  build from them, a hidden-state tensor of shape \<open>[1, 2, 2]\<close> and a state dict. They
  are the inputs at which the theorems below are instantiated.
\<close>

definition paddle0 :: "int paddle" where
  "paddle0 = \<lparr>default_dtype = float32,
              Orthogonal = (\<lambda>k i j. if i = j then (if k = 0 then 1 else - 1) else 0),
              KaimingUniform = (\<lambda>i j. 1),
              random_dropout = (\<lambda>p x. Inr (x\<lparr>rows := map (map (\<lambda>v. 0)) (rows x)\<rparr>))\<rparr>"

definition kwargs0 :: kwargs where
  "kwargs0 = \<lparr>kw_embed_dim = Some 2, kw_low_rank_dimension = Some 1, kw_dtype = Some float32,
              kw_dropout = None, kw_act_fn = None\<rparr>"

definition loreft0 :: "int LoreftIntervention" where
  "loreft0 = \<lparr>rotate_layer = \<lparr>weight = \<lparr>dtype = float32, shape = [2, 1], rows = [[1], [0]]\<rparr>\<rparr>,
              learned_source =
                \<lparr>linear_weight = \<lparr>dtype = float32, shape = [2, 1], rows = [[- 1], [0]]\<rparr>,
                 linear_bias = \<lparr>dtype = float32, shape = [1], rows = [[0]]\<rparr>\<rparr>,
              data_type = float32, dropout = Dropout paddle0 0, act_fn = linear_act\<rparr>"

definition tiny0 :: "int TinyIntervention" where
  "tiny0 = \<lparr>rank = 1, hidden_size = 2, tiny_dropout = (\<lambda>x. Inr x), scaling = 1,
            param_A = \<lparr>dtype = float32, shape = [2, 1], rows = [[1], [1]]\<rparr>,
            param_B = \<lparr>dtype = float32, shape = [1, 2], rows = [[0, 0]]\<rparr>,
            param_a = \<lparr>dtype = float32, shape = [1], rows = [[1]]\<rparr>,
            param_b = \<lparr>dtype = float32, shape = [2], rows = [[1, 1]]\<rparr>\<rparr>"

definition base0 :: "int tensor" where
  "base0 = \<lparr>dtype = float32, shape = [1, 2, 2], rows = [[1, 2], [3, 4]]\<rparr>"

definition state_dict0 :: "string \<rightharpoonup> int tensor" where
  "state_dict0 =
     [''learned_source.weight'' \<mapsto> \<lparr>dtype = float64, shape = [2, 1], rows = [[5], [6]]\<rparr>,
      ''learned_source.bias'' \<mapsto> \<lparr>dtype = float64, shape = [1], rows = [[7]]\<rparr>,
      ''rotate_layer.weight'' \<mapsto> \<lparr>dtype = float64, shape = [2, 1], rows = [[8], [9]]\<rparr>,
      ''param_A'' \<mapsto> \<lparr>dtype = float32, shape = [2, 1], rows = [[1], [1]]\<rparr>,
      ''param_B'' \<mapsto> \<lparr>dtype = float32, shape = [1, 2], rows = [[1, 3]]\<rparr>,
      ''param_a'' \<mapsto> \<lparr>dtype = float32, shape = [1], rows = [[2]]\<rparr>,
      ''param_b'' \<mapsto> \<lparr>dtype = float32, shape = [2], rows = [[1, 5]]\<rparr>]"

text \<open>A module of rank 2 and a checkpoint whose rotate-layer weight has one column.\<close>

definition loreft1 :: "int LoreftIntervention" where
  "loreft1 = \<lparr>rotate_layer = \<lparr>weight = \<lparr>dtype = float32, shape = [2, 2], rows = [[1, 0], [0, 1]]\<rparr>\<rparr>,
              learned_source =
                \<lparr>linear_weight = \<lparr>dtype = float16, shape = [2, 2], rows = [[- 1, 0], [0, - 1]]\<rparr>,
                 linear_bias = \<lparr>dtype = float16, shape = [2], rows = [[0, 0]]\<rparr>\<rparr>,
              data_type = float16, dropout = Dropout paddle0 0, act_fn = linear_act\<rparr>"

definition state_dict1 :: "string \<rightharpoonup> int tensor" where
  "state_dict1 =
     [''learned_source.weight'' \<mapsto> \<lparr>dtype = float32, shape = [2, 2], rows = [[5, 6], [7, 8]]\<rparr>,
      ''learned_source.bias'' \<mapsto> \<lparr>dtype = float32, shape = [2], rows = [[3, 4]]\<rparr>,
      ''rotate_layer.weight'' \<mapsto> \<lparr>dtype = float32, shape = [2, 1], rows = [[8], [9]]\<rparr>]"

text \<open>
  The same over \<open>f32\<close>: a framework, the \<open>TinyIntervention\<close> its constructor builds, a
  rotate layer with a single weight, a \<open>LoreftIntervention\<close> with trained weights, and
  hidden-state tensors.
\<close>

definition paddle32 :: "f32 paddle" where
  "paddle32 = \<lparr>default_dtype = float32,
               Orthogonal = (\<lambda>k i j. if i = j then 1 else 0),
               KaimingUniform = (\<lambda>i j. 1),
               random_dropout = (\<lambda>p x. Inr x)\<rparr>"



definition loreft32 :: "f32 LoreftIntervention" where
  "loreft32 = \<lparr>rotate_layer = \<lparr>weight = \<lparr>dtype = float32, shape = [2, 1], rows = [[1], [1]]\<rparr>\<rparr>,
               learned_source =
                 \<lparr>linear_weight = \<lparr>dtype = float32, shape = [2, 1], rows = [[0], [0]]\<rparr>,
                  linear_bias = \<lparr>dtype = float32, shape = [1], rows = [[Finite (1 / 2 ^ 24)]]\<rparr>\<rparr>,
               data_type = float32, dropout = Dropout paddle32 0, act_fn = linear_act\<rparr>"

definition base32 :: "f32 tensor" where
  "base32 = \<lparr>dtype = float32, shape = [1, 2], rows = [[Finite 1, Finite (- 1)]]\<rparr>"



section \<open>Lemmas about the tensor operations\<close>

lemma bind_res_Inr [simp]: "bind_res (Inr x) f = f x"
  by (simp add: bind_res_def)

lemma bind_res_Inl [simp]: "bind_res (Inl e) f = Inl e"
  by (simp add: bind_res_def)

lemma promote_types_same [simp]: "promote_types d d = d"
  by (simp add: promote_types_def)

lemma dot_sum_list:
  fixes u :: "'a::semiring_0 list"
  shows "dot u v = sum_list (map2 (*) u v)"
  by (simp add: dot_def sum_list.eq_foldr)

lemma scalar_of_int_ring: "(scalar_of_int i :: 'a::ring_1) = of_int i"
proof -
  have "((+) 1 ^^ n) 0 = (of_nat n :: 'a)" for n
    by (induction n) simp_all
  then show ?thesis
    by (simp add: scalar_of_int_def)
qed




lemma dot_sum:
  fixes u :: "'a::semiring_0 list"
  shows "length u = length v \<Longrightarrow> dot u v = (\<Sum>k<length u. u ! k * v ! k)"
proof -
  assume l: "length u = length v"
  have "dot u v = (\<Sum>k = 0..<length (map2 (*) u v). map2 (*) u v ! k)"
    unfolding dot_sum_list by (rule sum_list_sum_nth)
  also have "\<dots> = (\<Sum>k<length u. u ! k * v ! k)"
    using l by (intro sum.cong) (auto simp: atLeast0LessThan)
  finally show ?thesis .
qed

lemma length_cols: "length (cols m rs) = m"
  by (simp add: cols_def)

lemma nth_cols: "j < m \<Longrightarrow> cols m rs ! j = map (\<lambda>r. r ! j) rs"
  by (simp add: cols_def)

lemma map_dot_cols:
  fixes h :: "'a::semiring_0 list"
  assumes "length h = length ys"
  shows "map (dot h) (cols m ys) = map (\<lambda>j. \<Sum>l<length h. h ! l * ys ! l ! j) [0..<m]"
proof -
  have "dot h (map (\<lambda>r. r ! j) ys) = (\<Sum>l<length h. h ! l * ys ! l ! j)" for j
    using assms by (simp add: dot_sum)
  then show ?thesis by (simp add: cols_def comp_def)
qed

lemma matmul_rows:
  fixes x :: "'a::semiring_0 tensor"
  assumes "tensor_ok x" "last (shape x) = n" "tensor_ok y" "shape y = [n, m]"
  shows "matmul x y = Inr \<lparr>dtype = promote_types (dtype x) (dtype y),
                          shape = butlast (shape x) @ [m],
                          rows = map (\<lambda>h. map (\<lambda>j. \<Sum>l<n. h ! l * rows y ! l ! j) [0..<m]) (rows x)\<rparr>"
proof -
  have ly: "length (rows y) = n" using assms by (simp add: tensor_ok_def)
  have "map (dot h) (cols m (rows y)) = map (\<lambda>j. \<Sum>l<n. h ! l * rows y ! l ! j) [0..<m]"
    if "h \<in> set (rows x)" for h
  proof -
    have "length h = n" using that assms by (auto simp: tensor_ok_def list_all_iff)
    then show ?thesis using map_dot_cols[of h "rows y" m] ly by simp
  qed
  then have "map (\<lambda>r. map (dot r) (cols m (rows y))) (rows x) =
             map (\<lambda>h. map (\<lambda>j. \<Sum>l<n. h ! l * rows y ! l ! j) [0..<m]) (rows x)"
    by (intro map_cong) simp_all
  moreover have "shape x \<noteq> []" using assms by (simp add: tensor_ok_def)
  ultimately show ?thesis using assms by (simp add: matmul_def)
qed

lemma map2_same: "map2 f (map g xs) (map h xs) = map (\<lambda>x. f (g x) (h x)) xs"
  by (induction xs) simp_all

lemma map2_same_left: "map2 f xs (map h xs) = map (\<lambda>x. f x (h x)) xs"
  by (induction xs) simp_all

lemma tensor_ok_vec:
  assumes "tensor_ok b" "shape b = [m]"
  shows "\<exists>v. rows b = [v] \<and> length v = m"
proof -
  have "length (rows b) = 1" using assms by (simp add: tensor_ok_def)
  then obtain v where v: "rows b = [v]" by (cases "rows b") auto
  then show ?thesis using assms by (simp add: tensor_ok_def)
qed

lemma add_bias:
  assumes "tensor_ok y" "last (shape y) = m" "tensor_ok b" "shape b = [m]"
  shows "add y b = Inr \<lparr>dtype = promote_types (dtype y) (dtype b), shape = shape y,
                       rows = map (\<lambda>r. map2 (+) r (concat (rows b))) (rows y)\<rparr>"
proof (cases "shape y = shape b")
  case True
  obtain v where v: "rows b = [v]" using tensor_ok_vec[OF assms(3,4)] by blast
  obtain r where r: "rows y = [r]" using tensor_ok_vec[of y m] assms True by auto
  show ?thesis using True v r by (simp add: add_def elementwise_def)
next
  case False
  moreover have "shape y \<noteq> []" using assms by (simp add: tensor_ok_def)
  ultimately show ?thesis using assms by (simp add: add_def elementwise_def)
qed

lemma T_matrix:
  assumes "tensor_ok R" "shape R = [n, m]"
  shows "T R = Inr (R\<lparr>shape := [m, n], rows := cols m (rows R)\<rparr>)"
    and "tensor_ok (R\<lparr>shape := [m, n], rows := cols m (rows R)\<rparr>)"
  using assms by (simp_all add: T_def tensor_ok_def length_cols cols_def list_all_iff)

lemma shape_restore: "s \<noteq> [] \<Longrightarrow> last s = n \<Longrightarrow> butlast s @ [n] = s"
  by (metis append_butlast_last_id)

lemma sub_same:
  "shape x = shape y \<Longrightarrow> sub x y = Inr \<lparr>dtype = promote_types (dtype x) (dtype y), shape = shape x,
             rows = map2 (map2 (-)) (rows x) (rows y)\<rparr>"
  by (simp add: sub_def elementwise_def)

lemma add_same:
  "shape x = shape y \<Longrightarrow> add x y = Inr \<lparr>dtype = promote_types (dtype x) (dtype y), shape = shape x,
             rows = map2 (map2 (+)) (rows x) (rows y)\<rparr>"
  by (simp add: add_def elementwise_def)

lemma Linear_forward_rows:
  fixes l :: "'a::semiring_0 Linear"
  assumes "tensor_ok base" "last (shape base) = n"
    and "tensor_ok (linear_weight l)" "shape (linear_weight l) = [n, m]"
    and "tensor_ok (linear_bias l)" "shape (linear_bias l) = [m]"
  shows "Linear_forward l base =
     Inr \<lparr>dtype = promote_types (promote_types (dtype base) (dtype (linear_weight l))) (dtype (linear_bias l)),
          shape = butlast (shape base) @ [m],
          rows = map (\<lambda>h. map2 (+) (map (\<lambda>k. \<Sum>i<n. h ! i * rows (linear_weight l) ! i ! k) [0..<m])
                                   (concat (rows (linear_bias l)))) (rows base)\<rparr>"
proof -
  note mm = matmul_rows[OF assms(1-4)]
  have ok: "tensor_ok \<lparr>dtype = promote_types (dtype base) (dtype (linear_weight l)),
                          shape = butlast (shape base) @ [m],
                          rows = map (\<lambda>h. map (\<lambda>j. \<Sum>i<n. h ! i * rows (linear_weight l) ! i ! j) [0..<m]) (rows base)\<rparr>"
    using assms(1) by (simp add: tensor_ok_def list_all_iff)
  show ?thesis
    unfolding Linear_forward_def mm
    using add_bias[OF ok _ assms(5,6)] by (simp add: comp_def)
qed

lemma diag_vec:
  assumes "tensor_ok v" "shape v = [k]"
  shows "diag v = Inr \<lparr>dtype = dtype v, shape = [k, k],
                       rows = map (\<lambda>i. map (\<lambda>j. if i = j then concat (rows v) ! i else 0) [0..<k]) [0..<k]\<rparr>"
    and "tensor_ok \<lparr>dtype = dtype v, shape = [k, k],
                       rows = map (\<lambda>i. map (\<lambda>j. if i = j then concat (rows v) ! i else 0) [0..<k]) [0..<k]\<rparr>"
  using assms by (simp_all add: diag_def tensor_ok_def list_all_iff)

lemma matmul_diag:
  fixes x :: "'a::semiring_0 tensor"
  assumes "tensor_ok x" "last (shape x) = k" "tensor_ok v" "shape v = [k]"
  shows "matmul x \<lparr>dtype = dtype v, shape = [k, k],
                   rows = map (\<lambda>i. map (\<lambda>j. if i = j then concat (rows v) ! i else 0) [0..<k]) [0..<k]\<rparr>
       = Inr \<lparr>dtype = promote_types (dtype x) (dtype v), shape = shape x,
              rows = map (\<lambda>u. map (\<lambda>j. u ! j * concat (rows v) ! j) [0..<k]) (rows x)\<rparr>"
proof -
  let ?D = "\<lparr>dtype = dtype v, shape = [k, k],
                   rows = map (\<lambda>i. map (\<lambda>j. if i = j then concat (rows v) ! i else 0) [0..<k]) [0..<k]\<rparr>"
  have sx: "shape x \<noteq> []" using assms by (simp add: tensor_ok_def)
  have "(\<Sum>l<k. u ! l * rows ?D ! l ! j) = u ! j * concat (rows v) ! j" if "j < k" for j and u :: "'a list"
  proof -
    have "(\<Sum>l<k. u ! l * rows ?D ! l ! j) = (\<Sum>l<k. if l = j then u ! l * concat (rows v) ! l else 0)"
      using that by (intro sum.cong) simp_all
    also have "\<dots> = u ! j * concat (rows v) ! j"
      using that by (simp add: sum.delta')
    finally show ?thesis .
  qed
  then have "map (\<lambda>j. \<Sum>l<k. u ! l * rows ?D ! l ! j) [0..<k] = map (\<lambda>j. u ! j * concat (rows v) ! j) [0..<k]"
    for u :: "'a list"
    by (intro map_cong) simp_all
  then show ?thesis
    unfolding matmul_rows[OF assms(1,2) diag_vec(2)[OF assms(3,4)], of k, simplified]
    using shape_restore[OF sx assms(2)] by simp
qed

lemma tiny_row:
  fixes h :: "'a::ring_1 list"
  assumes "length h = n" "length a = r"
  shows "map2 (+) h (map (\<lambda>v. v * s)
            (map (\<lambda>j. (map (\<lambda>j. \<Sum>k<r. (map (\<lambda>k. (map (\<lambda>k. \<Sum>l<n. h ! l * A ! l ! k) [0..<r]) ! k * a ! k) [0..<r]) ! k * B ! k ! j) [0..<n]) ! j * b ! j) [0..<n]))
       = TinyReFT A a B b s h"
proof (rule nth_equalityI)
  show "length (map2 (+) h (map (\<lambda>v. v * s)
            (map (\<lambda>j. (map (\<lambda>j. \<Sum>k<r. (map (\<lambda>k. (map (\<lambda>k. \<Sum>l<n. h ! l * A ! l ! k) [0..<r]) ! k * a ! k) [0..<r]) ! k * B ! k ! j) [0..<n]) ! j * b ! j) [0..<n])))
      = length (TinyReFT A a B b s h)"
    using assms by (simp add: TinyReFT_def)
next
  fix i assume "i < length (map2 (+) h (map (\<lambda>v. v * s)
            (map (\<lambda>j. (map (\<lambda>j. \<Sum>k<r. (map (\<lambda>k. (map (\<lambda>k. \<Sum>l<n. h ! l * A ! l ! k) [0..<r]) ! k * a ! k) [0..<r]) ! k * B ! k ! j) [0..<n]) ! j * b ! j) [0..<n])))"
  then have i: "i < n" using assms by simp
  have "(\<Sum>k<r. (map (\<lambda>k. (map (\<lambda>k. \<Sum>l<n. h ! l * A ! l ! k) [0..<r]) ! k * a ! k) [0..<r]) ! k * B ! k ! i)
      = (\<Sum>k<r. (\<Sum>l<n. h ! l * A ! l ! k) * a ! k * B ! k ! i)"
    by (intro sum.cong) simp_all
  then show "map2 (+) h (map (\<lambda>v. v * s)
            (map (\<lambda>j. (map (\<lambda>j. \<Sum>k<r. (map (\<lambda>k. (map (\<lambda>k. \<Sum>l<n. h ! l * A ! l ! k) [0..<r]) ! k * a ! k) [0..<r]) ! k * B ! k ! j) [0..<n]) ! j * b ! j) [0..<n])) ! i
      = TinyReFT A a B b s h ! i"
    using i assms by (simp add: TinyReFT_def)
qed

section \<open>The forward passes, entry by entry\<close>

lemma delta_row:
  fixes v :: "'a::ring list"
  assumes "length v = m"
  shows "map2 (-) (map \<phi> (map2 (+) (map A [0..<m]) v)) (map B [0..<m])
       = map (\<lambda>k. \<phi> (A k + v ! k) - B k) [0..<m]"
  using assms by (intro nth_equalityI) simp_all

lemma Loreft_delta:
  fixes self :: "'a::ring LoreftIntervention"
  assumes base: "tensor_ok base" "last (shape base) = n"
    and R: "tensor_ok (weight (rotate_layer self))" "shape (weight (rotate_layer self)) = [n, m]"
    and W: "tensor_ok (linear_weight (learned_source self))"
           "shape (linear_weight (learned_source self)) = [n, m]"
    and b: "tensor_ok (linear_bias (learned_source self))"
           "shape (linear_bias (learned_source self)) = [m]"
    and act: "act_fn self = pointwise \<phi>"
  shows "\<exists>d. LoreftIntervention_forward self base =
           bind_res (T (weight (rotate_layer self))) (\<lambda>wT.
           bind_res (matmul \<lparr>dtype = d, shape = butlast (shape base) @ [m],
               rows = map (\<lambda>h. map (\<lambda>k.
                        \<phi> ((\<Sum>l<n. h ! l * rows (linear_weight (learned_source self)) ! l ! k)
                           + concat (rows (linear_bias (learned_source self))) ! k)
                        - (\<Sum>l<n. h ! l * rows (weight (rotate_layer self)) ! l ! k)) [0..<m]) (rows base)\<rparr> wT) (\<lambda>edit.
           bind_res (add base edit) (\<lambda>output.
           dropout self (astype (dtype base) output))))"
proof -
  let ?R = "weight (rotate_layer self)"
  let ?W = "linear_weight (learned_source self)"
  let ?b = "linear_bias (learned_source self)"
  obtain v where v: "rows ?b = [v]" "length v = m" using tensor_ok_vec[OF b] by blast
  have ok': "tensor_ok (astype (dtype ?R) base)" "last (shape (astype (dtype ?R) base)) = n"
    using base by (simp_all add: tensor_ok_def astype_def)
  have rot: "LowRankRotateLayer_forward (rotate_layer self) base =
      Inr \<lparr>dtype = dtype ?R, shape = butlast (shape base) @ [m],
           rows = map (\<lambda>h. map (\<lambda>k. \<Sum>l<n. h ! l * rows ?R ! l ! k) [0..<m]) (rows base)\<rparr>"
    unfolding LowRankRotateLayer_forward_def matmul_rows[OF ok' R]
    by (simp add: astype_def)
  note src = Linear_forward_rows[OF base W b]
  let ?d = "promote_types (promote_types (promote_types (dtype base) (dtype ?W)) (dtype ?b)) (dtype ?R)"
  have delta: "sub (act_fn self \<lparr>dtype = promote_types (promote_types (dtype base) (dtype ?W)) (dtype ?b),
          shape = butlast (shape base) @ [m],
          rows = map (\<lambda>h. map2 (+) (map (\<lambda>k. \<Sum>i<n. h ! i * rows ?W ! i ! k) [0..<m])
                                   (concat (rows ?b))) (rows base)\<rparr>)
       \<lparr>dtype = dtype ?R, shape = butlast (shape base) @ [m],
           rows = map (\<lambda>h. map (\<lambda>k. \<Sum>l<n. h ! l * rows ?R ! l ! k) [0..<m]) (rows base)\<rparr>
     = Inr \<lparr>dtype = ?d, shape = butlast (shape base) @ [m],
            rows = map (\<lambda>h. map (\<lambda>k. \<phi> ((\<Sum>l<n. h ! l * rows ?W ! l ! k) + concat (rows ?b) ! k)
                        - (\<Sum>l<n. h ! l * rows ?R ! l ! k)) [0..<m]) (rows base)\<rparr>"
  proof -
    have "map2 (map2 (-))
            (map (map \<phi>) (map (\<lambda>h. map2 (+) (map (\<lambda>k. \<Sum>i<n. h ! i * rows ?W ! i ! k) [0..<m]) v) (rows base)))
            (map (\<lambda>h. map (\<lambda>k. \<Sum>l<n. h ! l * rows ?R ! l ! k) [0..<m]) (rows base))
        = map (\<lambda>h. map (\<lambda>k. \<phi> ((\<Sum>l<n. h ! l * rows ?W ! l ! k) + v ! k)
                        - (\<Sum>l<n. h ! l * rows ?R ! l ! k)) [0..<m]) (rows base)"
      by (simp only: map_map) (simp only: comp_def map2_same delta_row[OF v(2)])
    then show ?thesis
      unfolding act pointwise_def
      by (subst sub_same) (simp_all add: v)
  qed
  have "LoreftIntervention_forward self base =
           bind_res (T ?R) (\<lambda>wT.
           bind_res (matmul \<lparr>dtype = ?d, shape = butlast (shape base) @ [m],
               rows = map (\<lambda>h. map (\<lambda>k. \<phi> ((\<Sum>l<n. h ! l * rows ?W ! l ! k) + concat (rows ?b) ! k)
                        - (\<Sum>l<n. h ! l * rows ?R ! l ! k)) [0..<m]) (rows base)\<rparr> wT) (\<lambda>edit.
           bind_res (add base edit) (\<lambda>output.
           dropout self (astype (dtype base) output))))"
    unfolding LoreftIntervention_forward_def rot src
    by (simp only: bind_res_Inr delta)
  then show ?thesis by blast
qed

lemma Loreft_edit:
  fixes v :: "'a::ring tensor"
  assumes base: "tensor_ok base" "last (shape base) = n"
    and R: "tensor_ok R" "shape R = [n, m]"
    and v: "tensor_ok v" "shape v = butlast (shape base) @ [m]"
  shows "\<exists>wT edit d. T R = Inr wT \<and> matmul v wT = Inr edit \<and>
           add base edit = Inr \<lparr>dtype = d, shape = shape base,
              rows = map2 (\<lambda>h u. map (\<lambda>j. h ! j + (\<Sum>k<m. u ! k * rows R ! j ! k)) [0..<n])
                       (rows base) (rows v)\<rparr>"
proof -
  have sb: "shape base \<noteq> []" using base by (simp add: tensor_ok_def)
  have lR: "length (rows R) = n" using R by (simp add: tensor_ok_def)
  note TR = T_matrix[OF R]
  have lv: "last (shape v) = m" using v by simp
  have shT: "shape (R\<lparr>shape := [m, n], rows := cols m (rows R)\<rparr>) = [m, n]" by simp
  have edit: "matmul v (R\<lparr>shape := [m, n], rows := cols m (rows R)\<rparr>) =
      Inr \<lparr>dtype = promote_types (dtype v) (dtype R), shape = shape base,
           rows = map (\<lambda>u. map (\<lambda>j. \<Sum>k<m. u ! k * rows R ! j ! k) [0..<n]) (rows v)\<rparr>"
  proof -
    have "(\<Sum>k<m. u ! k * cols m (rows R) ! k ! j) = (\<Sum>k<m. u ! k * rows R ! j ! k)"
      if "j < n" for j and u :: "'a list"
      using that lR by (intro sum.cong) (simp_all add: nth_cols)
    then have "map (\<lambda>j. \<Sum>k<m. u ! k * cols m (rows R) ! k ! j) [0..<n]
             = map (\<lambda>j. \<Sum>k<m. u ! k * rows R ! j ! k) [0..<n]" for u :: "'a list"
      by (intro map_cong) simp_all
    then show ?thesis
      unfolding matmul_rows[OF v(1) lv TR(2) shT]
      using v(2) shape_restore[OF sb base(2)] by simp
  qed
  have rows_eq: "map2 (map2 (+)) (rows base)
                   (map (\<lambda>u. map (\<lambda>j. \<Sum>k<m. u ! k * rows R ! j ! k) [0..<n]) (rows v))
               = map2 (\<lambda>h u. map (\<lambda>j. h ! j + (\<Sum>k<m. u ! k * rows R ! j ! k)) [0..<n])
                       (rows base) (rows v)"
  proof -
    have "map2 (+) h (map (\<lambda>j. \<Sum>k<m. u ! k * rows R ! j ! k) [0..<n])
        = map (\<lambda>j. h ! j + (\<Sum>k<m. u ! k * rows R ! j ! k)) [0..<n]"
      if "length h = n" for h u :: "'a list"
      using that by (intro nth_equalityI) simp_all
    moreover have "\<forall>h \<in> set (rows base). length h = n"
      using base by (auto simp: tensor_ok_def list_all_iff)
    ultimately show ?thesis
      by (auto simp: zip_map2 map_eq_conv dest: set_zip_leftD)
  qed
  have "add base \<lparr>dtype = promote_types (dtype v) (dtype R), shape = shape base,
           rows = map (\<lambda>u. map (\<lambda>j. \<Sum>k<m. u ! k * rows R ! j ! k) [0..<n]) (rows v)\<rparr>
     = Inr \<lparr>dtype = promote_types (dtype base) (promote_types (dtype v) (dtype R)), shape = shape base,
              rows = map2 (\<lambda>h u. map (\<lambda>j. h ! j + (\<Sum>k<m. u ! k * rows R ! j ! k)) [0..<n])
                       (rows base) (rows v)\<rparr>"
    using rows_eq by (subst add_same) simp_all
  with TR(1) edit show ?thesis by blast
qed

lemma Tiny_forward_rows:
  fixes self :: "'a::ring_1 TinyIntervention"
  assumes base: "tensor_ok base" "last (shape base) = n"
    and A: "tensor_ok (param_A self)" "shape (param_A self) = [n, r]"
    and B: "tensor_ok (param_B self)" "shape (param_B self) = [r, n]"
    and a: "tensor_ok (param_a self)" "shape (param_a self) = [r]"
    and b: "tensor_ok (param_b self)" "shape (param_b self) = [n]"
    and drop: "tiny_dropout self = (\<lambda>x. Inr x)"
  shows "TinyIntervention_forward self base =
     Inr \<lparr>dtype = dtype base, shape = shape base,
          rows = map (TinyReFT (rows (param_A self)) (concat (rows (param_a self)))
                        (rows (param_B self)) (concat (rows (param_b self)))
                        (of_int (scaling self))) (rows base)\<rparr>"
proof -
  let ?A = "param_A self" and ?B = "param_B self" and ?a = "param_a self" and ?b = "param_b self"
  obtain va where va: "rows ?a = [va]" "length va = r" using tensor_ok_vec[OF a] by blast
  obtain vb where vb: "rows ?b = [vb]" "length vb = n" using tensor_ok_vec[OF b] by blast
  have sb: "shape base \<noteq> []" using base by (simp add: tensor_ok_def)
  have lh: "\<And>h. h \<in> set (rows base) \<Longrightarrow> length h = n"
    using base by (auto simp: tensor_ok_def list_all_iff)
  note xA = matmul_rows[OF base A]
  let ?xA = "\<lparr>dtype = promote_types (dtype base) (dtype ?A), shape = butlast (shape base) @ [r],
             rows = map (\<lambda>h. map (\<lambda>j. \<Sum>l<n. h ! l * rows ?A ! l ! j) [0..<r]) (rows base)\<rparr>"
  have okxA: "tensor_ok ?xA" "last (shape ?xA) = r"
    using base by (simp_all add: tensor_ok_def list_all_iff)
  note xAa = matmul_diag[OF okxA a]
  let ?xAa = "\<lparr>dtype = promote_types (dtype ?xA) (dtype ?a), shape = shape ?xA,
              rows = map (\<lambda>u. map (\<lambda>j. u ! j * concat (rows ?a) ! j) [0..<r]) (rows ?xA)\<rparr>"
  have okxAa: "tensor_ok ?xAa" "last (shape ?xAa) = r"
    using base by (simp_all add: tensor_ok_def list_all_iff)
  note xAaB = matmul_rows[OF okxAa B]
  let ?xAaB = "\<lparr>dtype = promote_types (dtype ?xAa) (dtype ?B), shape = butlast (shape ?xAa) @ [n],
               rows = map (\<lambda>h. map (\<lambda>j. \<Sum>l<r. h ! l * rows ?B ! l ! j) [0..<n]) (rows ?xAa)\<rparr>"
  have okxAaB: "tensor_ok ?xAaB" "last (shape ?xAaB) = n"
    using base by (simp_all add: tensor_ok_def list_all_iff)
  note xAaBb = matmul_diag[OF okxAaB b]
  let ?X = "\<lparr>dtype = promote_types (dtype ?xAaB) (dtype ?b), shape = shape ?xAaB,
           rows = map (\<lambda>u. map (\<lambda>j. u ! j * concat (rows ?b) ! j) [0..<n]) (rows ?xAaB)\<rparr>"
  note sr = shape_restore[OF sb base(2)]
  have rows_eq: "map2 (map2 (+)) (rows base)
       (map (map (\<lambda>v. v * of_int (scaling self)))
          (map (\<lambda>u. map (\<lambda>j. u ! j * concat (rows ?b) ! j) [0..<n]) (rows ?xAaB)))
     = map (TinyReFT (rows ?A) va (rows ?B) vb (of_int (scaling self))) (rows base)"
    using tiny_row[OF lh va(2), of _ "of_int (scaling self)" "rows ?A" "rows ?B" vb]
    by (simp add: comp_def map2_same_left va vb cong: map_cong)
  have res: "add base (astype (dtype base) (mul_scalar ?X (of_int (scaling self))))
     = Inr \<lparr>dtype = dtype base, shape = shape base,
            rows = map (TinyReFT (rows ?A) va (rows ?B) vb (of_int (scaling self))) (rows base)\<rparr>"
  proof -
    have "shape base = shape (astype (dtype base) (mul_scalar ?X (of_int (scaling self))))"
      by (simp add: astype_def mul_scalar_def sr)
    from add_same[OF this] rows_eq show ?thesis
      by (simp add: astype_def mul_scalar_def)
  qed
  show ?thesis
    unfolding TinyIntervention_forward_def diag_vec(1)[OF a] diag_vec(1)[OF b] drop scalar_of_int_ring
    by (simp only: bind_res_Inr xA xAa xAaB xAaBb Let_def res) (simp add: va vb)
qed

lemma Loreft_forward_factor:
  fixes self :: "'a::ring LoreftIntervention"
  assumes base: "tensor_ok base" "last (shape base) = n"
    and ok: "LoreftIntervention_ok n m self"
    and act: "act_fn self = pointwise \<phi>"
  shows "\<exists>v wT edit out.
           tensor_ok v \<and> shape v = butlast (shape base) @ [m] \<and>
           rows v = map (\<lambda>h. map (\<lambda>k.
                        \<phi> ((\<Sum>l<n. h ! l * rows (linear_weight (learned_source self)) ! l ! k)
                           + concat (rows (linear_bias (learned_source self))) ! k)
                        - (\<Sum>l<n. h ! l * rows (weight (rotate_layer self)) ! l ! k)) [0..<m]) (rows base) \<and>
           T (weight (rotate_layer self)) = Inr wT \<and> matmul v wT = Inr edit \<and>
           add base edit = Inr out \<and> shape out = shape base \<and>
           rows out = map2 (\<lambda>h u. map (\<lambda>j. h ! j + (\<Sum>k<m. u ! k * rows (weight (rotate_layer self)) ! j ! k)) [0..<n])
                        (rows base) (rows v) \<and>
           LoreftIntervention_forward self base = dropout self (astype (dtype base) out)"
proof -
  let ?R = "weight (rotate_layer self)"
  let ?g = "\<lambda>h. map (\<lambda>k.
                        \<phi> ((\<Sum>l<n. h ! l * rows (linear_weight (learned_source self)) ! l ! k)
                           + concat (rows (linear_bias (learned_source self))) ! k)
                        - (\<Sum>l<n. h ! l * rows ?R ! l ! k)) [0..<m]"
  have R: "tensor_ok ?R" "shape ?R = [n, m]"
    and W: "tensor_ok (linear_weight (learned_source self))"
           "shape (linear_weight (learned_source self)) = [n, m]"
    and b: "tensor_ok (linear_bias (learned_source self))"
           "shape (linear_bias (learned_source self)) = [m]"
    using ok by (simp_all add: LoreftIntervention_ok_def)
  obtain d where fwd: "LoreftIntervention_forward self base =
           bind_res (T ?R) (\<lambda>wT.
           bind_res (matmul \<lparr>dtype = d, shape = butlast (shape base) @ [m], rows = map ?g (rows base)\<rparr> wT) (\<lambda>edit.
           bind_res (add base edit) (\<lambda>output.
           dropout self (astype (dtype base) output))))"
    using Loreft_delta[OF base R W b act] by blast
  let ?v = "\<lparr>dtype = d, shape = butlast (shape base) @ [m], rows = map ?g (rows base)\<rparr>"
  have okv: "tensor_ok ?v" "shape ?v = butlast (shape base) @ [m]"
    using base by (simp_all add: tensor_ok_def list_all_iff)
  obtain wT edit d' where e: "T ?R = Inr wT" "matmul ?v wT = Inr edit"
      "add base edit = Inr \<lparr>dtype = d', shape = shape base,
              rows = map2 (\<lambda>h u. map (\<lambda>j. h ! j + (\<Sum>k<m. u ! k * rows ?R ! j ! k)) [0..<n])
                       (rows base) (rows ?v)\<rparr>"
    using Loreft_edit[OF base R okv] by blast
  let ?out = "\<lparr>dtype = d', shape = shape base,
              rows = map2 (\<lambda>h u. map (\<lambda>j. h ! j + (\<Sum>k<m. u ! k * rows ?R ! j ! k)) [0..<n])
                       (rows base) (rows ?v)\<rparr>"
  have "LoreftIntervention_forward self base = dropout self (astype (dtype base) ?out)"
    unfolding fwd by (simp only: e bind_res_Inr)
  moreover have "rows ?v = map ?g (rows base)" by simp
  moreover have "shape ?out = shape base" "rows ?out = map2 (\<lambda>h u. map (\<lambda>j. h ! j + (\<Sum>k<m. u ! k * rows ?R ! j ! k)) [0..<n])
                       (rows base) (rows ?v)" by simp_all
  ultimately show ?thesis using okv e by blast
qed

lemma LoReFT_row:
  fixes h :: "'a::ring list"
  assumes "length h = n" "length b = m"
  shows "map (\<lambda>j. h ! j + (\<Sum>k<m. (map (\<lambda>k. \<phi> ((\<Sum>l<n. h ! l * W ! l ! k) + b ! k)
                        - (\<Sum>l<n. h ! l * R ! l ! k)) [0..<m]) ! k * R ! j ! k)) [0..<n]
       = LoReFT \<phi> R W b h"
proof -
  have "(\<Sum>k<m. (map (\<lambda>k. \<phi> ((\<Sum>l<n. h ! l * W ! l ! k) + b ! k)
                        - (\<Sum>l<n. h ! l * R ! l ! k)) [0..<m]) ! k * R ! j ! k)
      = (\<Sum>k<m. (\<phi> ((\<Sum>l<n. h ! l * W ! l ! k) + b ! k) - (\<Sum>l<n. h ! l * R ! l ! k)) * R ! j ! k)" for j
    by (intro sum.cong) simp_all
  then show ?thesis using assms by (simp add: LoReFT_def)
qed

lemma Loreft_forward_rows:
  fixes self :: "'a::ring LoreftIntervention"
  assumes base: "tensor_ok base" "last (shape base) = n"
    and ok: "LoreftIntervention_ok n m self"
    and act: "act_fn self = pointwise \<phi>"
  shows "LoreftIntervention_forward self base =
     dropout self \<lparr>dtype = dtype base, shape = shape base,
                   rows = map (LoReFT \<phi> (rows (weight (rotate_layer self)))
                                 (rows (linear_weight (learned_source self)))
                                 (concat (rows (linear_bias (learned_source self))))) (rows base)\<rparr>"
proof -
  let ?R = "rows (weight (rotate_layer self))"
  let ?W = "rows (linear_weight (learned_source self))"
  let ?b = "concat (rows (linear_bias (learned_source self)))"
  obtain v out :: "'a tensor" where f:
      "rows v = map (\<lambda>h. map (\<lambda>k. \<phi> ((\<Sum>l<n. h ! l * ?W ! l ! k) + ?b ! k)
                        - (\<Sum>l<n. h ! l * ?R ! l ! k)) [0..<m]) (rows base)"
      "shape out = shape base"
      "rows out = map2 (\<lambda>h u. map (\<lambda>j. h ! j + (\<Sum>k<m. u ! k * ?R ! j ! k)) [0..<n])
                        (rows base) (rows v)"
      "LoreftIntervention_forward self base = dropout self (astype (dtype base) out)"
    using Loreft_forward_factor[OF assms] by blast
  have lb: "length ?b = m"
    using tensor_ok_vec[of "linear_bias (learned_source self)" m] ok
    by (auto simp: LoreftIntervention_ok_def)
  have lh: "\<And>h. h \<in> set (rows base) \<Longrightarrow> length h = n"
    using base by (auto simp: tensor_ok_def list_all_iff)
  have "rows out = map (LoReFT \<phi> ?R ?W ?b) (rows base)"
    unfolding f(3) f(1) map2_same_left
    by (intro map_cong refl LoReFT_row lh lb)
  then have "astype (dtype base) out = \<lparr>dtype = dtype base, shape = shape base,
                   rows = map (LoReFT \<phi> ?R ?W ?b) (rows base)\<rparr>"
    using f(2) by (simp add: astype_def)
  then show ?thesis using f(4) by simp
qed

lemma linear_act_pointwise: "linear_act = pointwise (\<lambda>x. x)"
  by (rule ext) (simp add: linear_act_def pointwise_def)

lemma ReLU_pointwise: "ReLU = pointwise (max 0)"
  by (rule ext) (simp add: ReLU_def pointwise_def)

lemma Dropout_zero: "Dropout P 0 x = Inr x"
  by (simp add: Dropout_def)

section \<open>The constructors and the rotate layer\<close>

lemma create_parameter_ok:
  "shp \<noteq> [] \<Longrightarrow> tensor_ok (create_parameter shp d ini)"
  by (simp add: create_parameter_def tensor_ok_def list_all_iff)

lemma create_parameter_shape [simp]: "shape (create_parameter shp d ini) = shp"
  by (simp add: create_parameter_def)

lemma create_parameter_dtype [simp]: "dtype (create_parameter shp d ini) = d"
  by (simp add: create_parameter_def)



lemma kwarg_Inr: "kwarg k v = Inr x \<longleftrightarrow> v = Some x"
  by (cases v) (simp_all add: kwarg_def)

lemma bind_res_eq_Inr: "bind_res m f = Inr y \<longleftrightarrow> (\<exists>x. m = Inr x \<and> f x = Inr y)"
  by (cases m) simp_all

lemma getitem_ACT2FN:
  "getitem ACT2FN a = Inr f \<longleftrightarrow> (a = ''linear'' \<and> f = linear_act) \<or> (a = ''relu'' \<and> f = ReLU)"
  by (auto simp: getitem_def ACT2FN_def)

lemma LoreftIntervention_init_ok:
  fixes P :: "'a::{zero,ord} paddle"
  assumes "LoreftIntervention_init P kw = Inr self"
  shows "\<exists>n m d. kw_embed_dim kw = Some n \<and> kw_low_rank_dimension kw = Some m \<and>
           kw_dtype kw = Some d \<and> LoreftIntervention_ok n m self \<and> data_type self = d \<and>
           dtype (weight (rotate_layer self)) = default_dtype P \<and>
           (act_fn self = linear_act \<or> act_fn self = ReLU) \<and>
           dropout self = Dropout P (case kw_dropout kw of Some p \<Rightarrow> p | None \<Rightarrow> 0)"
proof -
  from assms obtain n m d act where k: "kw_embed_dim kw = Some n" "kw_low_rank_dimension kw = Some m"
    "kw_dtype kw = Some d"
    "(case kw_act_fn kw of None \<Rightarrow> getitem ACT2FN ''linear'' | Some None \<Rightarrow> getitem ACT2FN ''linear''
       | Some (Some a) \<Rightarrow> getitem ACT2FN a) = Inr act"
    and self: "self = \<lparr>rotate_layer = LowRankRotateLayer_init P 0 n m,
                       learned_source = Linear_astype d (Linear_init P 1 n m), data_type = d,
                       dropout = Dropout P (case kw_dropout kw of Some p \<Rightarrow> p | None \<Rightarrow> 0),
                       act_fn = act\<rparr>"
    unfolding LoreftIntervention_init_def
    by (auto simp: bind_res_eq_Inr kwarg_Inr Let_def)
  have "act = linear_act \<or> act = ReLU"
    using k(4) by (auto simp: getitem_ACT2FN split: option.splits)
  moreover have "LoreftIntervention_ok n m self"
    unfolding self
    by (simp add: LoreftIntervention_ok_def LowRankRotateLayer_init_def Linear_astype_def
        Linear_init_def astype_def create_parameter_def tensor_ok_def list_all_iff)
  moreover have "dtype (weight (rotate_layer self)) = default_dtype P"
    unfolding self by (simp add: LowRankRotateLayer_init_def)
  ultimately show ?thesis using k self by simp
qed

lemma TinyIntervention_init_eq:
  fixes P :: "'a::{zero,one} paddle"
  shows "TinyIntervention_init P kw = Inr self \<longleftrightarrow>
     (\<exists>r h. kw_low_rank_dimension kw = Some r \<and> kw_embed_dim kw = Some h \<and>
        self = \<lparr>rank = r, hidden_size = h, tiny_dropout = (\<lambda>x. Inr x), scaling = 1,
          param_A = create_parameter [h, r] (default_dtype P) (KaimingUniform P),
          param_B = create_parameter [r, h] (default_dtype P) (Constant 0),
          param_a = create_parameter [r] (default_dtype P) (Constant 1),
          param_b = create_parameter [h] (default_dtype P) (Constant 1)\<rparr>)"
  unfolding TinyIntervention_init_def
  by (auto simp: bind_res_eq_Inr kwarg_Inr Let_def)

lemma TinyIntervention_init_ok:
  fixes P :: "'a::{zero,one} paddle"
  assumes "TinyIntervention_init P kw = Inr self"
  shows "TinyIntervention_ok self"
  using assms unfolding TinyIntervention_init_eq
  by (auto simp: TinyIntervention_ok_def create_parameter_ok)

lemma TinyReFT_zero_B:
  fixes h :: "'a::ring_1 list"
  assumes "\<And>k j. k < length a \<Longrightarrow> j < length h \<Longrightarrow> B ! k ! j = 0"
  shows "TinyReFT A a B b s h = h"
proof -
  have "(\<Sum>k<length a. (\<Sum>l<length h. h ! l * A ! l ! k) * a ! k * B ! k ! j) = 0"
    if "j < length h" for j
    using that assms by (intro sum.neutral) simp
  then show ?thesis
    unfolding TinyReFT_def by (intro nth_equalityI) simp_all
qed

section \<open>Loading a state dict\<close>

lemma getitem_Inr: "getitem d k = Inr v \<longleftrightarrow> d k = Some v"
  by (cases "d k") (simp_all add: getitem_def)

lemma last_dim_Inr: "last_dim x = Inr k \<longleftrightarrow> shape x \<noteq> [] \<and> k = last (shape x)"
  by (auto simp: last_dim_def)

lemma setitem_cols_Inr:
  "setitem_cols w k v = Inr w' \<longleftrightarrow>
     (\<exists>n m. shape w = [n, m] \<and> shape v = [n, min k m] \<and>
        w' = w\<lparr>rows := map2 (\<lambda>rw rv. rv @ drop k rw) (rows w) (rows v)\<rparr>)"
  by (auto simp: setitem_cols_def split: list.splits if_splits)

lemma LoreftIntervention_load_state_dict_Inr:
  "LoreftIntervention_load_state_dict self sd = Inr self' \<longleftrightarrow>
     (\<exists>sw sb rw n m k.
        sd ''learned_source.weight'' = Some sw \<and> sd ''learned_source.bias'' = Some sb \<and>
        sd ''rotate_layer.weight'' = Some rw \<and>
        shape (weight (rotate_layer self)) = [n, m] \<and> shape rw = [n, k] \<and> k \<le> m \<and>
        self' = self\<lparr>learned_source :=
                       \<lparr>linear_weight = astype (data_type self) sw,
                        linear_bias = astype (data_type self) sb\<rparr>,
                     rotate_layer :=
                       \<lparr>weight = (weight (rotate_layer self))
                          \<lparr>rows := map2 (\<lambda>r v. v @ drop k r) (rows (weight (rotate_layer self))) (rows rw)\<rparr>\<rparr>\<rparr>)"
  (is "?l \<longleftrightarrow> ?r")
proof
  assume ?l
  then obtain sw sb rw w' where k:
    "sd ''learned_source.weight'' = Some sw" "sd ''learned_source.bias'' = Some sb"
    "sd ''rotate_layer.weight'' = Some rw" "shape rw \<noteq> []"
    "setitem_cols (weight (rotate_layer self)) (last (shape rw)) (astype (data_type self) rw) = Inr w'"
    and s: "self' = self\<lparr>learned_source :=
               \<lparr>linear_weight = astype (data_type self) sw, linear_bias = astype (data_type self) sb\<rparr>,
             rotate_layer := \<lparr>weight = w'\<rparr>\<rparr>"
    unfolding LoreftIntervention_load_state_dict_def
    by (auto simp: bind_res_eq_Inr getitem_Inr last_dim_Inr Let_def astype_def)
  from k(5) obtain n m where w: "shape (weight (rotate_layer self)) = [n, m]"
    "shape rw = [n, min (last (shape rw)) m]"
    "w' = (weight (rotate_layer self))\<lparr>rows := map2 (\<lambda>r v. v @ drop (last (shape rw)) r)
            (rows (weight (rotate_layer self))) (rows rw)\<rparr>"
    unfolding setitem_cols_Inr by (auto simp: astype_def)
  have "last (shape rw) = min (last (shape rw)) m"
    using w(2) by (metis last.simps list.distinct(1))
  then have "last (shape rw) \<le> m" "shape rw = [n, last (shape rw)]"
    using w(2) by simp_all
  then show ?r using k(1-3) w(1,3) s by blast
next
  assume ?r
  then obtain sw sb rw n m k where k:
    "sd ''learned_source.weight'' = Some sw" "sd ''learned_source.bias'' = Some sb"
    "sd ''rotate_layer.weight'' = Some rw"
    "shape (weight (rotate_layer self)) = [n, m]" "shape rw = [n, k]" "k \<le> m"
    and s: "self' = self\<lparr>learned_source :=
                       \<lparr>linear_weight = astype (data_type self) sw,
                        linear_bias = astype (data_type self) sb\<rparr>,
                     rotate_layer :=
                       \<lparr>weight = (weight (rotate_layer self))
                          \<lparr>rows := map2 (\<lambda>r v. v @ drop k r) (rows (weight (rotate_layer self))) (rows rw)\<rparr>\<rparr>\<rparr>"
    by blast
  show ?l
    unfolding LoreftIntervention_load_state_dict_def s
    using k by (simp add: getitem_def last_dim_def setitem_cols_def astype_def Let_def min_def)
qed

lemma set_value_Inr: "set_value p v = Inr x \<longleftrightarrow> shape p = shape v \<and> dtype p = dtype v \<and> x = v"
  by (auto simp: set_value_def)

lemma TinyIntervention_load_state_dict_Inr:
  "TinyIntervention_load_state_dict self sd = Inr self' \<longleftrightarrow>
     (\<exists>vA vB va vb.
        sd ''param_A'' = Some vA \<and> sd ''param_B'' = Some vB \<and>
        sd ''param_a'' = Some va \<and> sd ''param_b'' = Some vb \<and>
        shape (param_A self) = shape vA \<and> dtype (param_A self) = dtype vA \<and>
        shape (param_B self) = shape vB \<and> dtype (param_B self) = dtype vB \<and>
        shape (param_a self) = shape va \<and> dtype (param_a self) = dtype va \<and>
        shape (param_b self) = shape vb \<and> dtype (param_b self) = dtype vb \<and>
        self' = self\<lparr>param_A := vA, param_B := vB, param_a := va, param_b := vb\<rparr>)"
  unfolding TinyIntervention_load_state_dict_def
  by (auto simp: bind_res_eq_Inr getitem_Inr set_value_Inr)

lemma map2_append_drop:
  assumes "length rs = length vs" "list_all (\<lambda>v. length v = k) vs"
  shows "map (take k) (map2 (\<lambda>r v. v @ drop k r) rs vs) = vs"
    and "map (drop k) (map2 (\<lambda>r v. v @ drop k r) rs vs) = map (drop k) rs"
  using assms by (induction rs vs rule: list_induct2) simp_all

lemma TinyIntervention_load_state_dict_ok:
  assumes "TinyIntervention_load_state_dict self sd = Inr self'" "TinyIntervention_ok self"
    and "\<forall>t \<in> ran sd. tensor_ok t"
  shows "TinyIntervention_ok self'"
proof -
  from assms(1) obtain vA vB va vb where k:
        "sd ''param_A'' = Some vA" "sd ''param_B'' = Some vB"
        "sd ''param_a'' = Some va" "sd ''param_b'' = Some vb"
        "shape (param_A self) = shape vA" "shape (param_B self) = shape vB"
        "shape (param_a self) = shape va" "shape (param_b self) = shape vb"
        "self' = self\<lparr>param_A := vA, param_B := vB, param_a := va, param_b := vb\<rparr>"
    unfolding TinyIntervention_load_state_dict_Inr by blast
  have "tensor_ok vA" "tensor_ok vB" "tensor_ok va" "tensor_ok vb"
    using k(1-4) assms(3) by (auto simp: ran_def)
  then show ?thesis using assms(2) k(5-9) by (simp add: TinyIntervention_ok_def)
qed

section \<open>Failures of the constructors\<close>

lemma dom_ACT2FN: "dom ACT2FN = {''linear'', ''relu''}"
  by (auto simp: ACT2FN_def)

lemma getitem_ACT2FN_Inl:
  "getitem ACT2FN a = Inl e \<longleftrightarrow> a \<notin> {''linear'', ''relu''} \<and> e = KeyError a"
  by (auto simp: getitem_def ACT2FN_def)

lemma LoreftIntervention_init_Inl:
  fixes P :: "'a::{zero,ord} paddle"
  shows "LoreftIntervention_init P kw = Inl e \<longleftrightarrow>
     (kw_embed_dim kw = None \<and> e = KeyError ''embed_dim'') \<or>
     (kw_embed_dim kw \<noteq> None \<and> kw_low_rank_dimension kw = None \<and> e = KeyError ''low_rank_dimension'') \<or>
     (kw_embed_dim kw \<noteq> None \<and> kw_low_rank_dimension kw \<noteq> None \<and> kw_dtype kw = None \<and>
        e = KeyError ''dtype'') \<or>
     (kw_embed_dim kw \<noteq> None \<and> kw_low_rank_dimension kw \<noteq> None \<and> kw_dtype kw \<noteq> None \<and>
        (\<exists>a. kw_act_fn kw = Some (Some a) \<and> a \<notin> {''linear'', ''relu''} \<and> e = KeyError a))"
proof (cases "kw_embed_dim kw")
  case None
  then show ?thesis by (auto simp: LoreftIntervention_init_def kwarg_def)
next
  case n: (Some n)
  show ?thesis
  proof (cases "kw_low_rank_dimension kw")
    case None
    then show ?thesis using n by (auto simp: LoreftIntervention_init_def kwarg_def)
  next
    case m: (Some m)
    show ?thesis
    proof (cases "kw_dtype kw")
      case None
      then show ?thesis using n m by (auto simp: LoreftIntervention_init_def kwarg_def Let_def)
    next
      case d: (Some d)
      have *: "LoreftIntervention_init P kw = Inl e \<longleftrightarrow>
            (case kw_act_fn kw of None \<Rightarrow> getitem ACT2FN ''linear''
               | Some None \<Rightarrow> getitem ACT2FN ''linear''
               | Some (Some a) \<Rightarrow> getitem (ACT2FN :: string \<rightharpoonup> ('a tensor \<Rightarrow> 'a tensor)) a) = Inl e"
        using n m d
        by (cases "case kw_act_fn kw of None \<Rightarrow> getitem ACT2FN ''linear''
               | Some None \<Rightarrow> getitem ACT2FN ''linear''
               | Some (Some a) \<Rightarrow> getitem (ACT2FN :: string \<rightharpoonup> ('a tensor \<Rightarrow> 'a tensor)) a")
           (simp_all add: LoreftIntervention_init_def kwarg_def Let_def)
      show ?thesis
        unfolding * using n m d
        by (auto simp: getitem_ACT2FN_Inl split: option.splits)
    qed
  qed
qed

lemma TinyIntervention_init_Inl:
  fixes P :: "'a::{zero,one} paddle"
  shows "TinyIntervention_init P kw = Inl e \<longleftrightarrow>
     (kw_low_rank_dimension kw = None \<and> e = KeyError ''low_rank_dimension'') \<or>
     (kw_low_rank_dimension kw \<noteq> None \<and> kw_embed_dim kw = None \<and> e = KeyError ''embed_dim'')"
  by (cases "kw_low_rank_dimension kw"; cases "kw_embed_dim kw")
     (auto simp: TinyIntervention_init_def kwarg_def Let_def)

lemma LoreftIntervention_init_fails:
  fixes P :: "'a::{zero,ord} paddle"
  shows "(\<exists>k. LoreftIntervention_init P kw = Inl (KeyError k)) \<longleftrightarrow>
            kw_embed_dim kw = None \<or> kw_low_rank_dimension kw = None \<or> kw_dtype kw = None \<or>
            (\<exists>a. kw_act_fn kw = Some (Some a) \<and> a \<notin> {''linear'', ''relu''})"
  (is "?l \<longleftrightarrow> ?r")
proof
  assume ?l
  then obtain k where "LoreftIntervention_init P kw = Inl (KeyError k)" ..
  from this[unfolded LoreftIntervention_init_Inl] show ?r by auto
next
  assume r: ?r
  consider (a) "kw_embed_dim kw = None"
    | (b) "kw_embed_dim kw \<noteq> None" "kw_low_rank_dimension kw = None"
    | (c) "kw_embed_dim kw \<noteq> None" "kw_low_rank_dimension kw \<noteq> None" "kw_dtype kw = None"
    | (d) a where "kw_embed_dim kw \<noteq> None" "kw_low_rank_dimension kw \<noteq> None" "kw_dtype kw \<noteq> None"
        "kw_act_fn kw = Some (Some a)" "a \<notin> {''linear'', ''relu''}"
    using r by auto
  then show ?l
  proof cases
    case a
    then have "LoreftIntervention_init P kw = Inl (KeyError ''embed_dim'')"
      unfolding LoreftIntervention_init_Inl by auto
    then show ?thesis ..
  next
    case b
    then have "LoreftIntervention_init P kw = Inl (KeyError ''low_rank_dimension'')"
      unfolding LoreftIntervention_init_Inl by auto
    then show ?thesis ..
  next
    case c
    then have "LoreftIntervention_init P kw = Inl (KeyError ''dtype'')"
      unfolding LoreftIntervention_init_Inl by auto
    then show ?thesis ..
  next
    case d
    then have "LoreftIntervention_init P kw = Inl (KeyError a)"
      unfolding LoreftIntervention_init_Inl by auto
    then show ?thesis ..
  qed
qed

lemma TinyIntervention_init_fails:
  fixes P :: "'a::{zero,one} paddle"
  shows "(\<exists>k. TinyIntervention_init P kw = Inl (KeyError k)) \<longleftrightarrow>
            kw_low_rank_dimension kw = None \<or> kw_embed_dim kw = None"
  (is "?l \<longleftrightarrow> ?r")
proof
  assume ?l
  then obtain k where "TinyIntervention_init P kw = Inl (KeyError k)" ..
  from this[unfolded TinyIntervention_init_Inl] show ?r by auto
next
  assume r: ?r
  consider (a) "kw_low_rank_dimension kw = None"
    | (b) "kw_low_rank_dimension kw \<noteq> None" "kw_embed_dim kw = None"
    using r by auto
  then show ?l
  proof cases
    case a
    then have "TinyIntervention_init P kw = Inl (KeyError ''low_rank_dimension'')"
      unfolding TinyIntervention_init_Inl by auto
    then show ?thesis ..
  next
    case b
    then have "TinyIntervention_init P kw = Inl (KeyError ''embed_dim'')"
      unfolding TinyIntervention_init_Inl by auto
    then show ?thesis ..
  qed
qed

section \<open>The initial \<open>TinyIntervention\<close> on floating-point tensors\<close>


lemma dot_Nil [simp]: "dot [] v = 0" "dot u [] = 0"
  by (simp_all add: dot_def)

lemma dot_Cons [simp]: "dot (a # u) (b # v) = a * b + dot u v"
  by (simp add: dot_def)

lemma round32_zero [simp]: "round32 0 = Finite 0"
  by (simp add: round32_def)



lemma zero_plus_zero32 [simp]: "(0 :: f32) + 0 = 0"
  by (simp add: zero_f32_def)


lemma finite32_simps [simp]: "finite32 0" "finite32 1" "finite32 (Finite q)"
  by (simp_all add: finite32_def zero_f32_def one_f32_def)








section \<open>The claims\<close>

text \<open>
  C1. For a hidden-state tensor \<open>base\<close> whose last axis has the embedding width,
  \<open>LoreftIntervention.forward\<close> returns the dropout of the tensor, cast to the dtype of
  \<open>base\<close>, whose vectors are \<open>h + (act_fn(h W + b) - h R) R\<^sup>T\<close> for the vectors \<open>h\<close> of
  \<open>base\<close>; with the default dropout probability 0 and the default linear activation
  the result is the tensor of the vectors \<open>h + (h W + b - h R) R\<^sup>T\<close>.
\<close>

theorem C1_LoreftIntervention_forward:
  fixes self :: "'a::ring LoreftIntervention"
  assumes "tensor_ok base" "last (shape base) = n" "LoreftIntervention_ok n m self"
  shows "(\<forall>\<phi>. act_fn self = pointwise \<phi> \<longrightarrow>
            (\<exists>d. LoreftIntervention_forward self base =
               dropout self (astype (dtype base)
                 \<lparr>dtype = d, shape = shape base,
                  rows = map (LoReFT \<phi> (rows (weight (rotate_layer self)))
                                (rows (linear_weight (learned_source self)))
                                (concat (rows (linear_bias (learned_source self))))) (rows base)\<rparr>))) \<and>
         (act_fn self = linear_act \<and> dropout self = Dropout P 0 \<longrightarrow>
            LoreftIntervention_forward self base =
              Inr \<lparr>dtype = dtype base, shape = shape base,
                   rows = map (LoReFT (\<lambda>x. x) (rows (weight (rotate_layer self)))
                                 (rows (linear_weight (learned_source self)))
                                 (concat (rows (linear_bias (learned_source self))))) (rows base)\<rparr>)"
proof (intro conjI allI impI)
  fix \<phi> assume act: "act_fn self = pointwise \<phi>"
  let ?t = "\<lparr>dtype = dtype base, shape = shape base,
             rows = map (LoReFT \<phi> (rows (weight (rotate_layer self)))
                           (rows (linear_weight (learned_source self)))
                           (concat (rows (linear_bias (learned_source self))))) (rows base)\<rparr>"
  have "astype (dtype base) ?t = ?t" by (simp add: astype_def)
  then have "LoreftIntervention_forward self base = dropout self (astype (dtype base) ?t)"
    using Loreft_forward_rows[OF assms act] by simp
  then show "\<exists>d. LoreftIntervention_forward self base =
               dropout self (astype (dtype base)
                 \<lparr>dtype = d, shape = shape base,
                  rows = map (LoReFT \<phi> (rows (weight (rotate_layer self)))
                                (rows (linear_weight (learned_source self)))
                                (concat (rows (linear_bias (learned_source self))))) (rows base)\<rparr>)"
    by blast
next
  assume "act_fn self = linear_act \<and> dropout self = Dropout P 0"
  then have act: "act_fn self = pointwise (\<lambda>x. x)" and drop: "dropout self = Dropout P 0"
    by (simp_all add: linear_act_pointwise)
  show "LoreftIntervention_forward self base =
              Inr \<lparr>dtype = dtype base, shape = shape base,
                   rows = map (LoReFT (\<lambda>x. x) (rows (weight (rotate_layer self)))
                                 (rows (linear_weight (learned_source self)))
                                 (concat (rows (linear_bias (learned_source self))))) (rows base)\<rparr>"
    unfolding Loreft_forward_rows[OF assms act] drop by (rule Dropout_zero)
qed

theorem C1_LoreftIntervention_forward_witness:
  "tensor_ok base0 \<and> last (shape base0) = 2 \<and>
   LoreftIntervention_init paddle0 kwargs0 = Inr loreft0 \<and> LoreftIntervention_ok 2 1 loreft0 \<and>
   LoreftIntervention_forward loreft0 base0 =
     Inr \<lparr>dtype = float32, shape = [1, 2, 2], rows = [[- 1, 2], [- 3, 4]]\<rparr>"
proof -
  have h: "tensor_ok base0" "last (shape base0) = 2" "LoreftIntervention_ok 2 1 loreft0"
    by (simp_all add: base0_def loreft0_def tensor_ok_def LoreftIntervention_ok_def)
  have i: "LoreftIntervention_init paddle0 kwargs0 = Inr loreft0"
    by (simp add: LoreftIntervention_init_def kwargs0_def kwarg_def paddle0_def loreft0_def
        LowRankRotateLayer_init_def Linear_init_def Linear_astype_def astype_def
        create_parameter_def Constant_def getitem_def ACT2FN_def upt_rec numeral_2_eq_2)
  have a: "act_fn loreft0 = linear_act \<and> dropout loreft0 = Dropout paddle0 0"
    by (simp add: loreft0_def)
  have e: "map (LoReFT (\<lambda>x. x) (rows (weight (rotate_layer loreft0)))
                  (rows (linear_weight (learned_source loreft0)))
                  (concat (rows (linear_bias (learned_source loreft0))))) (rows base0)
         = [[- 1, 2], [- 3, 4]]"
    by (simp add: LoReFT_def loreft0_def base0_def numeral_2_eq_2)
  from C1_LoreftIntervention_forward[OF h, of paddle0] a
  have "LoreftIntervention_forward loreft0 base0 =
     Inr \<lparr>dtype = dtype base0, shape = shape base0,
          rows = map (LoReFT (\<lambda>x. x) (rows (weight (rotate_layer loreft0)))
                  (rows (linear_weight (learned_source loreft0)))
                  (concat (rows (linear_bias (learned_source loreft0))))) (rows base0)\<rparr>"
    by blast
  then show ?thesis using h i unfolding e by (simp add: base0_def)
qed

text \<open>
  C2. For a hidden-state tensor \<open>base\<close> whose last axis has the hidden size,
  \<open>TinyIntervention.forward\<close> returns the tensor of the dtype and shape of \<open>base\<close> whose
  vectors are \<open>h + (h A diag(a) B diag(b)) * scaling\<close> for the vectors \<open>h\<close> of \<open>base\<close>, with
  the four parameter tensors \<open>A\<close>, \<open>B\<close>, \<open>a\<close>, \<open>b\<close> of the module.
\<close>

theorem C2_TinyIntervention_forward:
  fixes self :: "'a::ring_1 TinyIntervention"
  assumes "tensor_ok base" "last (shape base) = hidden_size self" "TinyIntervention_ok self"
  shows "TinyIntervention_forward self base =
     Inr \<lparr>dtype = dtype base, shape = shape base,
          rows = map (TinyReFT (rows (param_A self)) (concat (rows (param_a self)))
                        (rows (param_B self)) (concat (rows (param_b self)))
                        (of_int (scaling self))) (rows base)\<rparr>"
  using assms(3) Tiny_forward_rows[OF assms(1,2), where r = "rank self"]
  by (simp add: TinyIntervention_ok_def)

theorem C2_TinyIntervention_forward_witness:
  "tensor_ok base0 \<and> last (shape base0) = hidden_size tiny0 \<and> TinyIntervention_ok tiny0 \<and>
   TinyIntervention_load_state_dict tiny0 state_dict0 =
     Inr (tiny0\<lparr>param_B := \<lparr>dtype = float32, shape = [1, 2], rows = [[1, 3]]\<rparr>,
                param_a := \<lparr>dtype = float32, shape = [1], rows = [[2]]\<rparr>,
                param_b := \<lparr>dtype = float32, shape = [2], rows = [[1, 5]]\<rparr>\<rparr>) \<and>
   TinyIntervention_ok (tiny0\<lparr>param_B := \<lparr>dtype = float32, shape = [1, 2], rows = [[1, 3]]\<rparr>,
                param_a := \<lparr>dtype = float32, shape = [1], rows = [[2]]\<rparr>,
                param_b := \<lparr>dtype = float32, shape = [2], rows = [[1, 5]]\<rparr>\<rparr>) \<and>
   TinyIntervention_forward
     (tiny0\<lparr>param_B := \<lparr>dtype = float32, shape = [1, 2], rows = [[1, 3]]\<rparr>,
            param_a := \<lparr>dtype = float32, shape = [1], rows = [[2]]\<rparr>,
            param_b := \<lparr>dtype = float32, shape = [2], rows = [[1, 5]]\<rparr>\<rparr>) base0 =
     Inr \<lparr>dtype = float32, shape = [1, 2, 2], rows = [[7, 92], [17, 214]]\<rparr>"
proof -
  let ?t = "tiny0\<lparr>param_B := \<lparr>dtype = float32, shape = [1, 2], rows = [[1, 3]]\<rparr>,
            param_a := \<lparr>dtype = float32, shape = [1], rows = [[2]]\<rparr>,
            param_b := \<lparr>dtype = float32, shape = [2], rows = [[1, 5]]\<rparr>\<rparr>"
  have h: "tensor_ok base0" "last (shape base0) = hidden_size ?t" "TinyIntervention_ok ?t"
    by (simp_all add: base0_def tiny0_def tensor_ok_def TinyIntervention_ok_def)
  have h0: "last (shape base0) = hidden_size tiny0" "TinyIntervention_ok tiny0"
    by (simp_all add: base0_def tiny0_def tensor_ok_def TinyIntervention_ok_def)
  have l: "TinyIntervention_load_state_dict tiny0 state_dict0 = Inr ?t"
    by (simp add: TinyIntervention_load_state_dict_def state_dict0_def getitem_def set_value_def
        tiny0_def)
  have e: "map (TinyReFT (rows (param_A ?t)) (concat (rows (param_a ?t)))
                        (rows (param_B ?t)) (concat (rows (param_b ?t)))
                        (of_int (scaling ?t))) (rows base0) = [[7, 92], [17, 214]]"
    by (simp add: TinyReFT_def tiny0_def base0_def numeral_2_eq_2)
  from C2_TinyIntervention_forward[OF h]
  show ?thesis using h h0 l unfolding e by (simp add: base0_def)
qed

text \<open>
  C7. State-dict loading restores the checkpoint's parameters. After a
  \<open>LoreftIntervention.load_state_dict\<close> that returns, the weight and the bias of the
  learned source are the checkpoint's tensors cast to \<open>data_type\<close>, and the first \<open>w\<close>
  columns of the rotate layer's weight are the checkpoint's tensor cast to \<open>data_type\<close>,
  \<open>w\<close> being the width of that tensor. After a \<open>TinyIntervention.load_state_dict\<close> that
  returns, the four parameters are the checkpoint's tensors.
\<close>

theorem C7_load_state_dict_restores:
  fixes L :: "'a LoreftIntervention" and Ti :: "'a TinyIntervention"
  assumes "LoreftIntervention_load_state_dict L sd = Inr L'"
    and "TinyIntervention_load_state_dict Ti sd' = Inr Ti'"
    and "tensor_ok (weight (rotate_layer L))"
    and "sd ''rotate_layer.weight'' = Some rw" "tensor_ok rw"
  shows "(\<exists>sw sb. sd ''learned_source.weight'' = Some sw \<and> sd ''learned_source.bias'' = Some sb \<and>
            linear_weight (learned_source L') = astype (data_type L) sw \<and>
            linear_bias (learned_source L') = astype (data_type L) sb) \<and>
         map (take (last (shape rw))) (rows (weight (rotate_layer L'))) = rows (astype (data_type L) rw) \<and>
         sd' ''param_A'' = Some (param_A Ti') \<and> sd' ''param_B'' = Some (param_B Ti') \<and>
         sd' ''param_a'' = Some (param_a Ti') \<and> sd' ''param_b'' = Some (param_b Ti')"
proof -
  from assms(1,4) obtain sw sb n m k where l:
        "sd ''learned_source.weight'' = Some sw" "sd ''learned_source.bias'' = Some sb"
        "shape (weight (rotate_layer L)) = [n, m]" "shape rw = [n, k]"
        "L' = L\<lparr>learned_source :=
                       \<lparr>linear_weight = astype (data_type L) sw,
                        linear_bias = astype (data_type L) sb\<rparr>,
                     rotate_layer :=
                       \<lparr>weight = (weight (rotate_layer L))
                          \<lparr>rows := map2 (\<lambda>r v. v @ drop k r) (rows (weight (rotate_layer L))) (rows rw)\<rparr>\<rparr>\<rparr>"
    unfolding LoreftIntervention_load_state_dict_Inr by auto
  have len: "length (rows (weight (rotate_layer L))) = length (rows rw)"
    using assms(3,5) l(3,4) by (simp add: tensor_ok_def)
  have lk: "list_all (\<lambda>v. length v = k) (rows rw)"
    using assms(5) l(4) by (simp add: tensor_ok_def)
  have "map (take (last (shape rw))) (rows (weight (rotate_layer L'))) = rows (astype (data_type L) rw)"
    using map2_append_drop(1)[OF len lk] l(4) by (simp add: l(5) astype_def)
  moreover have "sd' ''param_A'' = Some (param_A Ti') \<and> sd' ''param_B'' = Some (param_B Ti') \<and>
         sd' ''param_a'' = Some (param_a Ti') \<and> sd' ''param_b'' = Some (param_b Ti')"
    using assms(2) unfolding TinyIntervention_load_state_dict_Inr by auto
  ultimately show ?thesis using l(1,2) by (simp add: l(5))
qed

theorem C7_load_state_dict_restores_witness:
  "LoreftIntervention_load_state_dict loreft1 state_dict1 =
      Inr (loreft1\<lparr>learned_source :=
                     \<lparr>linear_weight = \<lparr>dtype = float16, shape = [2, 2], rows = [[5, 6], [7, 8]]\<rparr>,
                      linear_bias = \<lparr>dtype = float16, shape = [2], rows = [[3, 4]]\<rparr>\<rparr>,
                   rotate_layer :=
                     \<lparr>weight = \<lparr>dtype = float32, shape = [2, 2], rows = [[8, 0], [9, 1]]\<rparr>\<rparr>\<rparr>) \<and>
   TinyIntervention_load_state_dict tiny0 state_dict0 =
      Inr (tiny0\<lparr>param_B := \<lparr>dtype = float32, shape = [1, 2], rows = [[1, 3]]\<rparr>,
                 param_a := \<lparr>dtype = float32, shape = [1], rows = [[2]]\<rparr>,
                 param_b := \<lparr>dtype = float32, shape = [2], rows = [[1, 5]]\<rparr>\<rparr>) \<and>
   tensor_ok (weight (rotate_layer loreft1)) \<and>
   state_dict1 ''rotate_layer.weight'' = Some \<lparr>dtype = float32, shape = [2, 1], rows = [[8], [9]]\<rparr> \<and>
   tensor_ok \<lparr>dtype = float32, shape = [2, 1], rows = [[8], [9 :: int]]\<rparr> \<and>
   map (take 1) [[8, 0], [9, 1 :: int]] = [[8], [9]] \<and>
   state_dict0 ''param_B'' = Some \<lparr>dtype = float32, shape = [1, 2], rows = [[1, 3]]\<rparr>"
proof -
  let ?L' = "loreft1\<lparr>learned_source :=
                     \<lparr>linear_weight = \<lparr>dtype = float16, shape = [2, 2], rows = [[5, 6], [7, 8]]\<rparr>,
                      linear_bias = \<lparr>dtype = float16, shape = [2], rows = [[3, 4]]\<rparr>\<rparr>,
                   rotate_layer :=
                     \<lparr>weight = \<lparr>dtype = float32, shape = [2, 2], rows = [[8, 0], [9, 1]]\<rparr>\<rparr>\<rparr>"
  let ?T' = "tiny0\<lparr>param_B := \<lparr>dtype = float32, shape = [1, 2], rows = [[1, 3]]\<rparr>,
                 param_a := \<lparr>dtype = float32, shape = [1], rows = [[2]]\<rparr>,
                 param_b := \<lparr>dtype = float32, shape = [2], rows = [[1, 5]]\<rparr>\<rparr>"
  let ?rw = "\<lparr>dtype = float32, shape = [2, 1], rows = [[8], [9 :: int]]\<rparr>"
  have h: "LoreftIntervention_load_state_dict loreft1 state_dict1 = Inr ?L'"
    "TinyIntervention_load_state_dict tiny0 state_dict0 = Inr ?T'"
    "tensor_ok (weight (rotate_layer loreft1))"
    "state_dict1 ''rotate_layer.weight'' = Some ?rw" "tensor_ok ?rw"
    by (simp_all add: LoreftIntervention_load_state_dict_def TinyIntervention_load_state_dict_def
        state_dict0_def state_dict1_def loreft1_def tiny0_def getitem_def last_dim_def
        setitem_cols_def set_value_def astype_def tensor_ok_def)
  from C7_load_state_dict_restores[OF h]
  have "map (take (last (shape ?rw))) (rows (weight (rotate_layer ?L'))) = rows (astype (data_type loreft1) ?rw)"
    and "state_dict0 ''param_B'' = Some (param_B ?T')"
    by blast+
  then show ?thesis using h by (simp add: astype_def)
qed

text \<open>
  C10. \<open>LoreftIntervention.load_state_dict\<close> writes only the first \<open>w\<close> columns of the
  rotate layer's weight, \<open>w\<close> being the width of the checkpoint's tensor: every column
  \<open>j \<ge> w\<close> keeps the value it had before the call, and so do the shape and the dtype of
  the weight. A checkpoint narrower than the layer leaves the remaining columns at their
  prior values.
\<close>

theorem C10_load_state_dict_frame:
  fixes L :: "'a LoreftIntervention"
  assumes "LoreftIntervention_load_state_dict L sd = Inr L'"
    and "tensor_ok (weight (rotate_layer L))"
    and "sd ''rotate_layer.weight'' = Some rw" "tensor_ok rw"
  shows "map (drop (last (shape rw))) (rows (weight (rotate_layer L'))) =
           map (drop (last (shape rw))) (rows (weight (rotate_layer L))) \<and>
         (\<forall>i j. i < length (rows (weight (rotate_layer L))) \<and> last (shape rw) \<le> j \<and>
                 j < last (shape (weight (rotate_layer L))) \<longrightarrow>
                 rows (weight (rotate_layer L')) ! i ! j = rows (weight (rotate_layer L)) ! i ! j) \<and>
         shape (weight (rotate_layer L')) = shape (weight (rotate_layer L)) \<and>
         dtype (weight (rotate_layer L')) = dtype (weight (rotate_layer L)) \<and>
         last (shape rw) \<le> last (shape (weight (rotate_layer L)))"
proof -
  let ?W = "weight (rotate_layer L)"
  from assms(1,3) obtain n m k where l:
        "shape ?W = [n, m]" "shape rw = [n, k]" "k \<le> m"
        "weight (rotate_layer L') = ?W\<lparr>rows := map2 (\<lambda>r v. v @ drop k r) (rows ?W) (rows rw)\<rparr>"
    unfolding LoreftIntervention_load_state_dict_Inr by auto
  have len: "length (rows ?W) = length (rows rw)"
    using assms(2,4) l(1,2) by (simp add: tensor_ok_def)
  have lk: "list_all (\<lambda>v. length v = k) (rows rw)"
    using assms(4) l(2) by (simp add: tensor_ok_def)
  have lm: "list_all (\<lambda>r. length r = m) (rows ?W)"
    using assms(2) l(1) by (simp add: tensor_ok_def)
  have d: "map (drop k) (rows (weight (rotate_layer L'))) = map (drop k) (rows ?W)"
    using map2_append_drop(2)[OF len lk] by (simp add: l(4))
  have e: "rows (weight (rotate_layer L')) ! i ! j = rows ?W ! i ! j"
    if "i < length (rows ?W)" "k \<le> j" "j < m" for i j
  proof -
    have li: "i < length (rows (weight (rotate_layer L')))"
      using that(1) len by (simp add: l(4))
    have "drop k (rows (weight (rotate_layer L')) ! i) = drop k (rows ?W ! i)"
      using arg_cong[OF d, of "\<lambda>xs. xs ! i"] that(1) li by simp
    then have "drop k (rows (weight (rotate_layer L')) ! i) ! (j - k) = drop k (rows ?W ! i) ! (j - k)"
      by simp
    moreover have "length (rows ?W ! i) = m"
      using lm that(1) by (simp add: list_all_length)
    moreover have "length (rows (weight (rotate_layer L')) ! i) = m"
      using that(1) len lk lm l(3) by (simp add: l(4) list_all_length)
    ultimately show ?thesis using that(2,3) l(3) by simp
  qed
  show ?thesis using d e l by simp
qed

theorem C10_load_state_dict_frame_witness:
  "LoreftIntervention_load_state_dict loreft1 state_dict1 =
      Inr (loreft1\<lparr>learned_source :=
                     \<lparr>linear_weight = \<lparr>dtype = float16, shape = [2, 2], rows = [[5, 6], [7, 8]]\<rparr>,
                      linear_bias = \<lparr>dtype = float16, shape = [2], rows = [[3, 4]]\<rparr>\<rparr>,
                   rotate_layer :=
                     \<lparr>weight = \<lparr>dtype = float32, shape = [2, 2], rows = [[8, 0], [9, 1]]\<rparr>\<rparr>\<rparr>) \<and>
   tensor_ok (weight (rotate_layer loreft1)) \<and>
   state_dict1 ''rotate_layer.weight'' = Some \<lparr>dtype = float32, shape = [2, 1], rows = [[8], [9]]\<rparr> \<and>
   tensor_ok \<lparr>dtype = float32, shape = [2, 1], rows = [[8], [9 :: int]]\<rparr> \<and>
   map (drop 1) [[8, 0], [9, 1 :: int]] = map (drop 1) (rows (weight (rotate_layer loreft1))) \<and>
   rows (weight (rotate_layer loreft1)) = [[1, 0], [0, 1]]"
proof -
  let ?L' = "loreft1\<lparr>learned_source :=
                     \<lparr>linear_weight = \<lparr>dtype = float16, shape = [2, 2], rows = [[5, 6], [7, 8]]\<rparr>,
                      linear_bias = \<lparr>dtype = float16, shape = [2], rows = [[3, 4]]\<rparr>\<rparr>,
                   rotate_layer :=
                     \<lparr>weight = \<lparr>dtype = float32, shape = [2, 2], rows = [[8, 0], [9, 1]]\<rparr>\<rparr>\<rparr>"
  let ?rw = "\<lparr>dtype = float32, shape = [2, 1], rows = [[8], [9 :: int]]\<rparr>"
  have h: "LoreftIntervention_load_state_dict loreft1 state_dict1 = Inr ?L'"
    "tensor_ok (weight (rotate_layer loreft1))"
    "state_dict1 ''rotate_layer.weight'' = Some ?rw" "tensor_ok ?rw"
    by (simp_all add: LoreftIntervention_load_state_dict_def
        state_dict1_def loreft1_def getitem_def last_dim_def
        setitem_cols_def astype_def tensor_ok_def)
  from C10_load_state_dict_frame[OF h]
  have "map (drop (last (shape ?rw))) (rows (weight (rotate_layer ?L'))) =
           map (drop (last (shape ?rw))) (rows (weight (rotate_layer loreft1)))"
    by blast
  then show ?thesis using h by (simp add: loreft1_def)
qed

text \<open>
  C8. The only failure of the constructors is a missing key.
  \<open>LoreftIntervention.__init__\<close> fails with a key-lookup error exactly when the keyword
  arguments lack one of \<open>embed_dim\<close>, \<open>low_rank_dimension\<close>, \<open>dtype\<close>, or give \<open>act_fn\<close> a
  value that is neither \<open>None\<close> nor a key of \<open>ACT2FN\<close>, whose keys are \<open>linear\<close> and
  \<open>relu\<close>; \<open>TinyIntervention.__init__\<close> fails with a key-lookup error exactly when they
  lack \<open>low_rank_dimension\<close> or \<open>embed_dim\<close>; and neither constructor fails otherwise.
\<close>

theorem C8_constructor_key_errors:
  fixes P :: "'a::{zero,one,ord} paddle"
  shows "((\<exists>k. LoreftIntervention_init P kw = Inl (KeyError k)) \<longleftrightarrow>
            kw_embed_dim kw = None \<or> kw_low_rank_dimension kw = None \<or> kw_dtype kw = None \<or>
            (\<exists>a. kw_act_fn kw = Some (Some a) \<and>
                 a \<notin> dom (ACT2FN :: string \<rightharpoonup> ('a tensor \<Rightarrow> 'a tensor)))) \<and>
         dom (ACT2FN :: string \<rightharpoonup> ('a tensor \<Rightarrow> 'a tensor)) = {''linear'', ''relu''} \<and>
         (\<forall>e. LoreftIntervention_init P kw = Inl e \<longrightarrow> (\<exists>k. e = KeyError k)) \<and>
         ((\<exists>k. TinyIntervention_init P kw = Inl (KeyError k)) \<longleftrightarrow>
            kw_low_rank_dimension kw = None \<or> kw_embed_dim kw = None) \<and>
         (\<forall>e. TinyIntervention_init P kw = Inl e \<longrightarrow> (\<exists>k. e = KeyError k))"
proof (intro conjI)
  show "(\<exists>k. LoreftIntervention_init P kw = Inl (KeyError k)) \<longleftrightarrow>
            kw_embed_dim kw = None \<or> kw_low_rank_dimension kw = None \<or> kw_dtype kw = None \<or>
            (\<exists>a. kw_act_fn kw = Some (Some a) \<and>
                 a \<notin> dom (ACT2FN :: string \<rightharpoonup> ('a tensor \<Rightarrow> 'a tensor)))"
    unfolding dom_ACT2FN by (rule LoreftIntervention_init_fails)
  show "dom (ACT2FN :: string \<rightharpoonup> ('a tensor \<Rightarrow> 'a tensor)) = {''linear'', ''relu''}"
    by (rule dom_ACT2FN)
  show "\<forall>e. LoreftIntervention_init P kw = Inl e \<longrightarrow> (\<exists>k. e = KeyError k)"
    unfolding LoreftIntervention_init_Inl by auto
  show "(\<exists>k. TinyIntervention_init P kw = Inl (KeyError k)) \<longleftrightarrow>
            kw_low_rank_dimension kw = None \<or> kw_embed_dim kw = None"
    by (rule TinyIntervention_init_fails)
  show "\<forall>e. TinyIntervention_init P kw = Inl e \<longrightarrow> (\<exists>k. e = KeyError k)"
    unfolding TinyIntervention_init_Inl by auto
qed

theorem C8_constructor_key_errors_witness:
  "(\<exists>k. LoreftIntervention_init paddle0 (kwargs0\<lparr>kw_act_fn := Some (Some ''gelu'')\<rparr>) = Inl (KeyError k)) \<and>
   kw_act_fn (kwargs0\<lparr>kw_act_fn := Some (Some ''gelu'')\<rparr>) = Some (Some ''gelu'') \<and>
   ''gelu'' \<notin> dom (ACT2FN :: string \<rightharpoonup> (int tensor \<Rightarrow> int tensor)) \<and>
   (\<exists>k. TinyIntervention_init paddle0 (kwargs0\<lparr>kw_act_fn := Some (Some ''gelu'')\<rparr>) = Inl (KeyError k)) = False \<and>
   LoreftIntervention_init paddle0 (kwargs0\<lparr>kw_act_fn := Some (Some ''gelu'')\<rparr>) = Inl (KeyError ''gelu'')"
proof -
  let ?kw = "kwargs0\<lparr>kw_act_fn := Some (Some ''gelu'')\<rparr>"
  have a: "kw_act_fn ?kw = Some (Some ''gelu'')"
    "''gelu'' \<notin> dom (ACT2FN :: string \<rightharpoonup> (int tensor \<Rightarrow> int tensor))"
    "kw_low_rank_dimension ?kw \<noteq> None" "kw_embed_dim ?kw \<noteq> None"
    by (simp_all add: kwargs0_def ACT2FN_def)
  have e: "LoreftIntervention_init paddle0 ?kw = Inl (KeyError ''gelu'')"
    by (simp add: LoreftIntervention_init_def kwargs0_def kwarg_def getitem_def ACT2FN_def Let_def)
  from C8_constructor_key_errors[of paddle0 ?kw] a e show ?thesis by simp
qed





text \<open>
  C3. For a hidden-state tensor \<open>base\<close> of shape \<open>[\<dots>, embed_dim]\<close>, both
  \<open>LoreftIntervention.forward\<close> and \<open>TinyIntervention.forward\<close> return a tensor of the
  shape and the dtype of \<open>base\<close>: a well-formed tensor, with as many vectors as \<open>base\<close>,
  each of the width of \<open>base\<close>. For \<open>LoreftIntervention\<close> the dropout layer is assumed to
  return a well-formed tensor of the shape and dtype of its input, as \<open>Dropout(0)\<close> does.
\<close>

theorem C3_forward_shape_dtype:
  fixes L :: "'a::ring_1 LoreftIntervention" and Ti :: "'a TinyIntervention"
  assumes "tensor_ok base" "last (shape base) = n"
    and "LoreftIntervention_ok n m L" "act_fn L = pointwise \<phi>"
    and "\<forall>x. tensor_ok x \<longrightarrow>
           (\<exists>y. dropout L x = Inr y \<and> tensor_ok y \<and> shape y = shape x \<and> dtype y = dtype x)"
    and "TinyIntervention_ok Ti" "hidden_size Ti = n"
  shows "(\<exists>y. LoreftIntervention_forward L base = Inr y \<and> tensor_ok y \<and>
              shape y = shape base \<and> dtype y = dtype base \<and>
              length (rows y) = length (rows base) \<and> list_all (\<lambda>r. length r = n) (rows y)) \<and>
         (\<exists>y. TinyIntervention_forward Ti base = Inr y \<and> tensor_ok y \<and>
              shape y = shape base \<and> dtype y = dtype base \<and>
              length (rows y) = length (rows base) \<and> list_all (\<lambda>r. length r = n) (rows y))"
proof
  let ?t = "\<lparr>dtype = dtype base, shape = shape base,
             rows = map (LoReFT \<phi> (rows (weight (rotate_layer L)))
                           (rows (linear_weight (learned_source L)))
                           (concat (rows (linear_bias (learned_source L))))) (rows base)\<rparr>"
  have ok: "tensor_ok ?t"
    using assms(1,2) by (simp add: tensor_ok_def list_all_iff LoReFT_def)
  then obtain y where y: "dropout L ?t = Inr y" "tensor_ok y" "shape y = shape ?t" "dtype y = dtype ?t"
    using assms(5) by blast
  have "length (rows y) = length (rows base)" "list_all (\<lambda>r. length r = n) (rows y)"
    using y(2,3) assms(1,2) by (simp_all add: tensor_ok_def)
  then show "\<exists>y. LoreftIntervention_forward L base = Inr y \<and> tensor_ok y \<and>
              shape y = shape base \<and> dtype y = dtype base \<and>
              length (rows y) = length (rows base) \<and> list_all (\<lambda>r. length r = n) (rows y)"
    using Loreft_forward_rows[OF assms(1-4)] y by simp
next
  let ?t = "\<lparr>dtype = dtype base, shape = shape base,
          rows = map (TinyReFT (rows (param_A Ti)) (concat (rows (param_a Ti)))
                        (rows (param_B Ti)) (concat (rows (param_b Ti)))
                        (of_int (scaling Ti))) (rows base)\<rparr>"
  have "last (shape base) = hidden_size Ti" using assms(2,7) by simp
  from Tiny_forward_rows[OF assms(1) this, where r = "rank Ti"] assms(6)
  have fw: "TinyIntervention_forward Ti base = Inr ?t"
    by (simp add: TinyIntervention_ok_def)
  have ok: "tensor_ok ?t" "list_all (\<lambda>r. length r = n) (rows ?t)"
    using assms(1,2) by (simp_all add: tensor_ok_def list_all_iff TinyReFT_def)
  show "\<exists>y. TinyIntervention_forward Ti base = Inr y \<and> tensor_ok y \<and>
              shape y = shape base \<and> dtype y = dtype base \<and>
              length (rows y) = length (rows base) \<and> list_all (\<lambda>r. length r = n) (rows y)"
    using fw ok by simp
qed

theorem C3_forward_shape_dtype_witness:
  "tensor_ok base0 \<and> last (shape base0) = 2 \<and>
   LoreftIntervention_ok 2 1 (loreft0\<lparr>dropout := Dropout paddle0 (1 / 2), act_fn := ReLU\<rparr>) \<and>
   act_fn (loreft0\<lparr>dropout := Dropout paddle0 (1 / 2), act_fn := ReLU\<rparr>) = pointwise (max 0) \<and>
   TinyIntervention_ok tiny0 \<and> hidden_size tiny0 = 2 \<and>
   (\<exists>y. LoreftIntervention_forward (loreft0\<lparr>dropout := Dropout paddle0 (1 / 2), act_fn := ReLU\<rparr>) base0 = Inr y \<and>
        tensor_ok y \<and> shape y = shape base0 \<and> dtype y = dtype base0 \<and>
        length (rows y) = length (rows base0) \<and> list_all (\<lambda>r. length r = 2) (rows y)) \<and>
   (\<exists>y. TinyIntervention_forward tiny0 base0 = Inr y \<and>
        tensor_ok y \<and> shape y = shape base0 \<and> dtype y = dtype base0 \<and>
        length (rows y) = length (rows base0) \<and> list_all (\<lambda>r. length r = 2) (rows y))"
proof -
  let ?L = "loreft0\<lparr>dropout := Dropout paddle0 (1 / 2), act_fn := ReLU\<rparr>"
  have h: "tensor_ok base0" "last (shape base0) = 2" "LoreftIntervention_ok 2 1 ?L"
    "act_fn ?L = pointwise (max 0)"
    by (simp_all add: base0_def loreft0_def tensor_ok_def LoreftIntervention_ok_def ReLU_pointwise)
  have d: "\<forall>x. tensor_ok x \<longrightarrow>
           (\<exists>y. dropout ?L x = Inr y \<and> tensor_ok y \<and> shape y = shape x \<and> dtype y = dtype x)"
    by (simp add: loreft0_def Dropout_def paddle0_def tensor_ok_def list_all_iff)
  have t: "TinyIntervention_ok tiny0" "hidden_size tiny0 = 2"
    by (simp_all add: tiny0_def tensor_ok_def TinyIntervention_ok_def)
  from C3_forward_shape_dtype[OF h d t] h t show ?thesis by blast
qed

text \<open>
  C4. The edit of \<open>LoreftIntervention\<close> is rank-reduced. With dropout probability 0
  there is a tensor \<open>v\<close> whose last axis has the low-rank dimension such that
  \<open>forward(base) = base + v @ weight\<^sup>T\<close> (cast to the dtype of \<open>base\<close>). Where the
  arithmetic of the scalars is exact (a ring), every vector of \<open>forward(base) - base\<close> lies
  in the span of the columns of \<open>rotate_layer.weight\<close>, of which there are
  \<open>low_rank_dimension\<close>, so the rank of the difference is at most \<open>low_rank_dimension\<close>. On
  floating-point tensors the sum \<open>base + v @ weight\<^sup>T\<close> is rounded, and the difference need
  not lie in that span.
\<close>

theorem C4_LoreftIntervention_rank_reduced:
  fixes self :: "'a::ring LoreftIntervention"
  assumes "tensor_ok base" "last (shape base) = n"
    and "LoreftIntervention_ok n m self" "act_fn self = pointwise \<phi>"
    and "dropout self = Dropout P 0"
  shows "\<exists>v wT edit out y.
           tensor_ok v \<and> shape v = butlast (shape base) @ [m] \<and>
           T (weight (rotate_layer self)) = Inr wT \<and> matmul v wT = Inr edit \<and>
           add base edit = Inr out \<and>
           LoreftIntervention_forward self base = Inr y \<and> y = astype (dtype base) out \<and>
           (\<forall>i<length (rows base).
              in_span (cols m (rows (weight (rotate_layer self))))
                      (map2 (-) (rows y ! i) (rows base ! i))) \<and>
           rank_at_most m (map2 (map2 (-)) (rows y) (rows base))"
proof -
  let ?R = "rows (weight (rotate_layer self))"
  obtain v wT edit out :: "'a tensor" where f:
      "tensor_ok v" "shape v = butlast (shape base) @ [m]"
      "T (weight (rotate_layer self)) = Inr wT" "matmul v wT = Inr edit"
      "add base edit = Inr out"
      "rows out = map2 (\<lambda>h u. map (\<lambda>j. h ! j + (\<Sum>k<m. u ! k * ?R ! j ! k)) [0..<n])
                        (rows base) (rows v)"
      "LoreftIntervention_forward self base = dropout self (astype (dtype base) out)"
    using Loreft_forward_factor[OF assms(1-4)] by blast
  let ?y = "astype (dtype base) out"
  have fw: "LoreftIntervention_forward self base = Inr ?y"
    unfolding f(7) assms(5) by (rule Dropout_zero)
  have lR: "length ?R = n"
    using assms(3) by (simp add: LoreftIntervention_ok_def tensor_ok_def)
  have lv: "length (rows v) = length (rows base)"
    using f(1,2) assms(1) by (simp add: tensor_ok_def)
  have ly: "length (rows ?y) = length (rows base)"
    using lv by (simp add: astype_def f(6))
  have span: "in_span (cols m ?R) (map2 (-) (rows ?y ! i) (rows base ! i))"
    if i: "i < length (rows base)" for i
  proof -
    let ?h = "rows base ! i" and ?u = "rows v ! i"
    have lh: "length ?h = n" and lu: "length ?u = m"
      using i lv assms(1,2) f(1,2) by (simp_all add: tensor_ok_def list_all_length)
    have ri: "rows ?y ! i = map (\<lambda>j. ?h ! j + (\<Sum>k<m. ?u ! k * ?R ! j ! k)) [0..<n]"
      using i lv by (simp add: astype_def f(6))
    have "map2 (-) (rows ?y ! i) ?h ! j = dot ?u (map (\<lambda>c. c ! j) (cols m ?R))"
      if "j < length (map2 (-) (rows ?y ! i) ?h)" for j
    proof -
      have j: "j < n" using that lh by (simp add: ri)
      have "dot ?u (map (\<lambda>c. c ! j) (cols m ?R))
              = (\<Sum>k<m. ?u ! k * map (\<lambda>c. c ! j) (cols m ?R) ! k)"
        using dot_sum[of ?u "map (\<lambda>c. c ! j) (cols m ?R)"] lu by (simp add: length_cols)
      also have "\<dots> = (\<Sum>k<m. ?u ! k * ?R ! j ! k)"
        using j lR by (intro sum.cong) (simp_all add: nth_cols length_cols)
      finally show ?thesis using j lh by (simp add: ri)
    qed
    then show ?thesis
      unfolding in_span_def using lu by (intro exI[of _ ?u]) (simp add: length_cols)
  qed
  have "in_span (cols m ?R) u" if "u \<in> set (map2 (map2 (-)) (rows ?y) (rows base))" for u
  proof -
    from that obtain i where "i < length (rows base)"
        "u = map2 (-) (rows ?y ! i) (rows base ! i)"
      using ly by (auto simp: in_set_conv_nth)
    then show ?thesis using span by simp
  qed
  then have "rank_at_most m (map2 (map2 (-)) (rows ?y) (rows base))"
    unfolding rank_at_most_def using length_cols[of m ?R] by blast
  then show ?thesis
    using f(1-5) fw span by blast
qed

theorem C4_LoreftIntervention_rank_reduced_witness:
  "tensor_ok base0 \<and> last (shape base0) = 2 \<and> LoreftIntervention_ok 2 1 loreft0 \<and>
   act_fn loreft0 = pointwise (\<lambda>x. x) \<and> dropout loreft0 = Dropout paddle0 0 \<and>
   (\<exists>v wT edit out y.
      tensor_ok v \<and> shape v = [1, 2, 1] \<and>
      T (weight (rotate_layer loreft0)) = Inr wT \<and> matmul v wT = Inr edit \<and>
      add base0 edit = Inr out \<and>
      LoreftIntervention_forward loreft0 base0 = Inr y \<and> y = astype (dtype base0) out \<and>
      in_span (cols 1 (rows (weight (rotate_layer loreft0)))) (map2 (-) (rows y ! 0) (rows base0 ! 0)) \<and>
      in_span (cols 1 (rows (weight (rotate_layer loreft0)))) (map2 (-) (rows y ! 1) (rows base0 ! 1)) \<and>
      rank_at_most 1 (map2 (map2 (-)) (rows y) (rows base0)))"
proof -
  have h: "tensor_ok base0" "last (shape base0) = 2" "LoreftIntervention_ok 2 1 loreft0"
    "act_fn loreft0 = pointwise (\<lambda>x. x)" "dropout loreft0 = Dropout paddle0 0"
    by (simp_all add: base0_def loreft0_def tensor_ok_def LoreftIntervention_ok_def
        linear_act_pointwise)
  have s: "butlast (shape base0) @ [1] = [1, 2, 1]" "length (rows base0) = 2"
    by (simp_all add: base0_def)
  from C4_LoreftIntervention_rank_reduced[OF h] obtain v wT edit out y :: "int tensor" where
    "tensor_ok v" "shape v = butlast (shape base0) @ [1]"
    "T (weight (rotate_layer loreft0)) = Inr wT" "matmul v wT = Inr edit"
    "add base0 edit = Inr out" "LoreftIntervention_forward loreft0 base0 = Inr y"
    "y = astype (dtype base0) out"
    "\<forall>i<length (rows base0).
        in_span (cols 1 (rows (weight (rotate_layer loreft0)))) (map2 (-) (rows y ! i) (rows base0 ! i))"
    "rank_at_most 1 (map2 (map2 (-)) (rows y) (rows base0))"
    by blast
  then show ?thesis using h unfolding s by (intro conjI exI[of _ v] exI[of _ wT] exI[of _ edit] exI[of _ out] exI[of _ y]) simp_all
qed

text \<open>
  C4, on floating-point tensors. With the weight column \<open>(1, 1)\<close>, a zero source weight,
  the bias \<open>2\<^sup>-\<^sup>2\<^sup>4\<close> and \<open>base = [[1, -1]]\<close> the edit is \<open>[[2\<^sup>-\<^sup>2\<^sup>4, 2\<^sup>-\<^sup>2\<^sup>4]]\<close>; the sum
  \<open>1 + 2\<^sup>-\<^sup>2\<^sup>4\<close> rounds to \<open>1\<close>, so \<open>forward(base) - base = [[0, 2\<^sup>-\<^sup>2\<^sup>4]]\<close>, which is no multiple
  of the column.
\<close>

theorem C4_float32_counterexample:
  "LoreftIntervention_forward loreft32 base32 =
     Inr \<lparr>dtype = float32, shape = [1, 2], rows = [[Finite 1, Finite (- 1 + 1 / 2 ^ 24)]]\<rparr> \<and>
   map2 (-) [Finite 1, Finite (- 1 + 1 / 2 ^ 24)] (rows base32 ! 0) = [Finite 0, Finite (1 / 2 ^ 24)] \<and>
   cols 1 (rows (weight (rotate_layer loreft32))) = [[Finite 1, Finite 1]] \<and>
   \<not> in_span (cols 1 (rows (weight (rotate_layer loreft32))))
              (map2 (-) [Finite 1, Finite (- 1 + 1 / 2 ^ 24)] (rows base32 ! 0))"
proof -
  have f: "LoreftIntervention_forward loreft32 base32 =
     Inr \<lparr>dtype = float32, shape = [1, 2], rows = [[Finite 1, Finite (- 1 + 1 / 2 ^ 24)]]\<rparr>"
    by code_simp
  have d: "map2 (-) [Finite 1, Finite (- 1 + 1 / 2 ^ 24)] (rows base32 ! 0) = [Finite 0, Finite (1 / 2 ^ 24)]"
    by code_simp
  have c: "cols 1 (rows (weight (rotate_layer loreft32))) = [[Finite 1, Finite 1]]"
    by code_simp
  have "\<not> in_span [[Finite 1, Finite 1]] [Finite 0, Finite (1 / 2 ^ 24)]"
  proof
    assume "in_span [[Finite 1, Finite 1]] [Finite 0, Finite (1 / 2 ^ 24)]"
    then obtain c :: "f32 list" where c: "length c = 1"
        "\<forall>j<2. [Finite 0, Finite (1 / 2 ^ 24)] ! j = dot c (map (\<lambda>v. v ! j) [[Finite 1, Finite 1]])"
      unfolding in_span_def by auto
    from c(2)[rule_format, of 0] have a: "Finite 0 = dot c [Finite 1]" by simp
    from c(2)[rule_format, of 1] have b: "Finite (1 / 2 ^ 24) = dot c [Finite 1]" by simp
    from a b have "Finite (0 :: rat) = Finite (1 / 2 ^ 24)" by simp
    then show False by simp
  qed
  then show ?thesis using f d c by simp
qed




end
